theory Spec2Isabelle
  imports Main "HOL-Library.Char_ord" "HOL-Library.Multiset"
begin

section \<open>Go strings and the library functions the codec calls\<close>

text \<open>
  A Go string is a sequence of bytes; \<^typ>\<open>string\<close> is a list of 8-bit characters, so one
  \<^typ>\<open>char\<close> is one byte, \<open>len(s)\<close> is \<^term>\<open>length s\<close>, \<open>s[i:j]\<close> is
  \<^term>\<open>take (j - i) (drop i s)\<close>. The functions of packages \<open>strings\<close> and \<open>strconv\<close>
  that the codec calls are written out below on bytes. Indices are Go's \<open>int\<close>, with \<open>-1\<close> for
  "not found", as the code tests them.
\<close>

definition HasPrefix :: "string \<Rightarrow> string \<Rightarrow> bool" where
  "HasPrefix s p = (take (length p) s = p)"

definition HasSuffix :: "string \<Rightarrow> string \<Rightarrow> bool" where
  "HasSuffix s p = (length p \<le> length s \<and> drop (length s - length p) s = p)"

fun indexNat :: "string \<Rightarrow> string \<Rightarrow> nat option" where
  "indexNat [] sub = (if sub = [] then Some 0 else None)"
| "indexNat (c # cs) sub =
     (if HasPrefix (c # cs) sub then Some 0 else map_option Suc (indexNat cs sub))"

fun lastIndexNat :: "string \<Rightarrow> string \<Rightarrow> nat option" where
  "lastIndexNat [] sub = (if sub = [] then Some 0 else None)"
| "lastIndexNat (c # cs) sub =
     (case lastIndexNat cs sub of
        Some i \<Rightarrow> Some (Suc i)
      | None \<Rightarrow> if HasPrefix (c # cs) sub then Some 0 else None)"

definition Index :: "string \<Rightarrow> string \<Rightarrow> int" where
  "Index s sub = (case indexNat s sub of None \<Rightarrow> -1 | Some i \<Rightarrow> int i)"

definition LastIndex :: "string \<Rightarrow> string \<Rightarrow> int" where
  "LastIndex s sub = (case lastIndexNat s sub of None \<Rightarrow> -1 | Some i \<Rightarrow> int i)"

definition Contains :: "string \<Rightarrow> string \<Rightarrow> bool" where
  "Contains s sub = (indexNat s sub \<noteq> None)"

definition ContainsAny :: "string \<Rightarrow> string \<Rightarrow> bool" where
  "ContainsAny s chars = (\<exists>c \<in> set s. c \<in> set chars)"

text \<open>\<open>strings.Split(s, sep)\<close> for a one-byte separator, the only kind the codec passes.\<close>

fun splitByte :: "char \<Rightarrow> string \<Rightarrow> string list" where
  "splitByte sep [] = [[]]"
| "splitByte sep (c # cs) =
     (if c = sep then [] # splitByte sep cs
      else (case splitByte sep cs of
              h # t \<Rightarrow> (c # h) # t
            | [] \<Rightarrow> [[c]]))"

definition Split :: "string \<Rightarrow> char \<Rightarrow> string list" where
  "Split s sep = splitByte sep s"

text \<open>\<open>strings.SplitN(s, sep, 2)\<close>: cut at the first separator, if there is one.\<close>

definition SplitN2 :: "string \<Rightarrow> string \<Rightarrow> string list" where
  "SplitN2 s sep =
     (case indexNat s sep of
        None \<Rightarrow> [s]
      | Some i \<Rightarrow> [take i s, drop (i + length sep) s])"

fun Join :: "string list \<Rightarrow> string \<Rightarrow> string" where
  "Join [] sep = []"
| "Join [x] sep = x"
| "Join (x # y # ys) sep = x @ sep @ Join (y # ys) sep"

subsection \<open>White space\<close>

text \<open>
  \<open>strings.TrimSpace\<close> removes the leading and then the trailing white-space runes
  (\<open>unicode.IsSpace\<close>): the six ASCII ones, and the UTF-8 encodings of U+0085, U+00A0,
  U+1680, U+2000 to U+200A, U+2028, U+2029, U+202F, U+205F and U+3000.
\<close>

definition asciiSpace :: "char \<Rightarrow> bool" where
  "asciiSpace c = (c = CHR 0x09 \<or> c = CHR 0x0A \<or> c = CHR 0x0B \<or> c = CHR 0x0C
                   \<or> c = CHR 0x0D \<or> c = CHR 0x20)"

definition space2 :: "char \<Rightarrow> char \<Rightarrow> bool" where
  "space2 a b = (a = CHR 0xC2 \<and> (b = CHR 0x85 \<or> b = CHR 0xA0))"

definition space3 :: "char \<Rightarrow> char \<Rightarrow> char \<Rightarrow> bool" where
  "space3 a b c =
     ((a = CHR 0xE1 \<and> b = CHR 0x9A \<and> c = CHR 0x80)
      \<or> (a = CHR 0xE2 \<and> b = CHR 0x80
           \<and> ((0x80 \<le> (of_char c :: nat) \<and> (of_char c :: nat) \<le> 0x8A)
                \<or> c = CHR 0xA8 \<or> c = CHR 0xA9 \<or> c = CHR 0xAF))
      \<or> (a = CHR 0xE2 \<and> b = CHR 0x81 \<and> c = CHR 0x9F)
      \<or> (a = CHR 0xE3 \<and> b = CHR 0x80 \<and> c = CHR 0x80))"

fun trimLeft :: "string \<Rightarrow> string" where
  "trimLeft [] = []"
| "trimLeft [a] = (if asciiSpace a then [] else [a])"
| "trimLeft [a, b] =
     (if asciiSpace a then trimLeft [b] else if space2 a b then [] else [a, b])"
| "trimLeft (a # b # c # rest) =
     (if asciiSpace a then trimLeft (b # c # rest)
      else if space2 a b then trimLeft (c # rest)
      else if space3 a b c then trimLeft rest
      else a # b # c # rest)"

text \<open>The same from the end, on the reversed string.\<close>

fun trimRev :: "string \<Rightarrow> string" where
  "trimRev [] = []"
| "trimRev [a] = (if asciiSpace a then [] else [a])"
| "trimRev [a, b] =
     (if asciiSpace a then trimRev [b] else if space2 b a then [] else [a, b])"
| "trimRev (a # b # c # rest) =
     (if asciiSpace a then trimRev (b # c # rest)
      else if space2 b a then trimRev (c # rest)
      else if space3 c b a then trimRev rest
      else a # b # c # rest)"

definition trimRight :: "string \<Rightarrow> string" where
  "trimRight s = rev (trimRev (rev s))"

definition TrimSpace :: "string \<Rightarrow> string" where
  "TrimSpace s = trimRight (trimLeft s)"

subsection \<open>Runes\<close>

text \<open>
  A \<open>for _, r := range s\<close> loop decodes \<open>s\<close> as UTF-8. \<^term>\<open>runeWidth\<close> is the number of
  bytes of the well-formed encoding at the head of the string, and \<open>0\<close> where the head byte
  starts none: there the loop yields U+FFFD and moves on by one byte. \<^term>\<open>runes\<close> lists,
  for each rune of the loop, the bytes that \<open>WriteRune\<close> writes for it: its own encoding, or
  \<open>EF BF BD\<close> for U+FFFD.
\<close>

definition inRange :: "char \<Rightarrow> nat \<Rightarrow> nat \<Rightarrow> bool" where
  "inRange c lo hi = (lo \<le> of_char c \<and> of_char c \<le> hi)"

fun runeWidth :: "string \<Rightarrow> nat" where
  "runeWidth [] = 0"
| "runeWidth (b0 # rest) =
     (let x = (of_char b0 :: nat) in
      if x < 0x80 then 1
      else if 0xC2 \<le> x \<and> x \<le> 0xDF then
        (case rest of
           b1 # _ \<Rightarrow> if inRange b1 0x80 0xBF then 2 else 0
         | _ \<Rightarrow> 0)
      else if 0xE0 \<le> x \<and> x \<le> 0xEF then
        (case rest of
           b1 # b2 # _ \<Rightarrow>
             if inRange b1 (if x = 0xE0 then 0xA0 else 0x80) (if x = 0xED then 0x9F else 0xBF)
                \<and> inRange b2 0x80 0xBF
             then 3 else 0
         | _ \<Rightarrow> 0)
      else if 0xF0 \<le> x \<and> x \<le> 0xF4 then
        (case rest of
           b1 # b2 # b3 # _ \<Rightarrow>
             if inRange b1 (if x = 0xF0 then 0x90 else 0x80) (if x = 0xF4 then 0x8F else 0xBF)
                \<and> inRange b2 0x80 0xBF \<and> inRange b3 0x80 0xBF
             then 4 else 0
         | _ \<Rightarrow> 0)
      else 0)"

definition runeError :: string where
  "runeError = [CHR 0xEF, CHR 0xBF, CHR 0xBD]"

function runes :: "string \<Rightarrow> string list" where
  "runes [] = []"
| "runes (c # cs) =
     (let w = runeWidth (c # cs) in
      if w = 0 then runeError # runes cs
      else take w (c # cs) # runes (drop w (c # cs)))"
  by pat_completeness auto
termination
  by (relation "measure length") auto

subsection \<open>Numerals\<close>

text \<open>
  \<open>strconv.Atoi\<close> with a 64-bit \<open>int\<close>: an optional sign and decimal digits. The second
  component says that the error is \<open>nil\<close>. On a syntax error the value is \<open>0\<close>; a numeral out
  of range gives the nearest bound together with the error.
\<close>

definition isDigit :: "char \<Rightarrow> bool" where
  "isDigit c = (0x30 \<le> (of_char c :: nat) \<and> (of_char c :: nat) \<le> 0x39)"

fun digitsVal :: "nat \<Rightarrow> string \<Rightarrow> nat option" where
  "digitsVal n [] = Some n"
| "digitsVal n (c # cs) =
     (if isDigit c then digitsVal (n * 10 + (of_char c - 0x30)) cs else None)"

definition maxInt :: int where
  "maxInt = 9223372036854775807"

definition minInt :: int where
  "minInt = - 9223372036854775808"

definition Atoi :: "string \<Rightarrow> int \<times> bool" where
  "Atoi s =
     (case s of
        [] \<Rightarrow> (0, False)
      | c # cs \<Rightarrow>
          (let neg = (c = CHR ''-'');
               ds = (if c = CHR ''-'' \<or> c = CHR ''+'' then cs else s)
           in if ds = [] then (0, False)
              else (case digitsVal 0 ds of
                      None \<Rightarrow> (0, False)
                    | Some n \<Rightarrow>
                        (let v = (if neg then - int n else int n)
                         in if v > maxInt then (maxInt, False)
                            else if v < minInt then (minInt, False)
                            else (v, True)))))"

text \<open>\<open>strconv.Itoa\<close>, and \<open>fmt.Sprintf("%d", n)\<close>, which prints the same.\<close>

function natStr :: "nat \<Rightarrow> string" where
  "natStr n = (if n < 10 then [''0123456789'' ! n]
               else natStr (n div 10) @ [''0123456789'' ! (n mod 10)])"
  by pat_completeness auto
termination
  by (relation "measure id") auto

declare natStr.simps [simp del]

definition Itoa :: "int \<Rightarrow> string" where
  "Itoa i = (if i < 0 then CHR ''-'' # natStr (nat (- i)) else natStr (nat i))"


section \<open>The symbol model (symbol.go)\<close>

text \<open>
  The structs of \<open>symbol.go\<close>. A slice is modelled by its sequence of elements and the
  \<open>Custom\<close> map by a partial function, so a \<open>nil\<close> slice or map and an empty one are the same
  value; the code only takes their \<open>len\<close> and ranges over them. The \<open>TypeArgs\<close> field of
  \<open>Receiver\<close> is \<open>RecvTypeArgs\<close> and the \<open>Name\<close> field of \<open>TypeParam\<close> is \<open>ParamName\<close>, to
  keep them apart from the fields of \<open>Symbol\<close>.
\<close>

record Receiver =
  TypeName :: string
  IsPointer :: bool
  RecvTypeArgs :: "string list"

record TypeParam =
  ParamName :: string
  Constraint :: string

record Metadata =
  Via :: string
  Alias :: string
  Position :: string
  Custom :: "string \<rightharpoonup> string"

record Symbol =
  PackagePath :: string
  Name :: string
  Receiver :: "Receiver option"
  IsInit :: bool
  IsAnonymous :: bool
  AnonParent :: string
  AnonIndex :: int
  TypeParams :: "TypeParam list"
  TypeArgs :: "string list"
  Context :: string
  Metadata :: Metadata

definition emptyMetadata :: Metadata where
  "emptyMetadata = \<lparr>Via = [], Alias = [], Position = [], Custom = Map.empty\<rparr>"

text \<open>The zero value \<open>Symbol{}\<close>.\<close>

definition zeroSymbol :: Symbol where
  "zeroSymbol = \<lparr>PackagePath = [], Name = [], Receiver = None, IsInit = False,
     IsAnonymous = False, AnonParent = [], AnonIndex = 0, TypeParams = [], TypeArgs = [],
     Context = [], Metadata = emptyMetadata\<rparr>"

subsection \<open>Format\<close>

definition hasMetadata :: "Metadata \<Rightarrow> bool" where
  "hasMetadata m = (Via m \<noteq> [] \<or> Alias m \<noteq> [] \<or> Position m \<noteq> [] \<or> Custom m \<noteq> Map.empty)"

text \<open>
  The anonymous-function marker that \<open>Format\<close> writes. The literal in \<open>symbol.go\<close> is the
  seven bytes \<open>C3 82 C2 B7 6C 69 74\<close>; the parser's literal \<open>litPart\<close> in \<open>parse.go\<close> is the
  five bytes \<open>C2 B7 6C 69 74\<close>, the middle dot U+00B7 and \<open>lit\<close>.
\<close>

definition formatLit :: string where
  "formatLit = [CHR 0xC3, CHR 0x82, CHR 0xC2, CHR 0xB7] @ ''lit''"

definition litPart :: string where
  "litPart = [CHR 0xC2, CHR 0xB7] @ ''lit''"

definition formatTypeParam :: "TypeParam \<Rightarrow> string" where
  "formatTypeParam tp =
     ParamName tp @
     (if Constraint tp \<noteq> [] \<and> Constraint tp \<noteq> ''any'' then '' '' @ Constraint tp else [])"

text \<open>
  Go does not fix the order in which \<open>range\<close> visits the entries of a map, and the order may
  change from one loop to the next. \<open>Format\<close> therefore takes the order of the visit as its
  first argument: \<^term>\<open>rangeOrder m ks\<close> says that \<open>ks\<close> is one of the orders the loop over
  \<open>m\<close> can take, every key once.
\<close>

definition rangeOrder :: "(string \<rightharpoonup> string) \<Rightarrow> string list \<Rightarrow> bool" where
  "rangeOrder m ks = (distinct ks \<and> set ks = dom m)"

text \<open>
  The entries of the metadata block: the three recognised ones, then one for each key of
  the \<open>Custom\<close> map, in the order of the visit.
\<close>

definition knownParts :: "Metadata \<Rightarrow> string list" where
  "knownParts m =
     (if Via m \<noteq> [] then [''via:'' @ Via m] else []) @
     (if Alias m \<noteq> [] then [''alias:'' @ Alias m] else []) @
     (if Position m \<noteq> [] then [''pos:'' @ Position m] else [])"

definition customPart :: "Metadata \<Rightarrow> string \<Rightarrow> string" where
  "customPart m k = k @ '':'' @ the (Custom m k)"

definition metaParts :: "string list \<Rightarrow> Metadata \<Rightarrow> string list" where
  "metaParts ks m = knownParts m @ map (customPart m) ks"

definition formatReceiver :: "Receiver option \<Rightarrow> string" where
  "formatReceiver recv =
     (case recv of
        None \<Rightarrow> []
      | Some r \<Rightarrow>
          ''('' @ (if IsPointer r then ''*'' else []) @ TypeName r @
          (if length (RecvTypeArgs r) > 0 then ''['' @ Join (RecvTypeArgs r) '', '' @ '']''
           else []) @
          '').'')"

definition formatName :: "Symbol \<Rightarrow> string" where
  "formatName s =
     (if IsAnonymous s
      then Name s @ formatLit @ (if AnonIndex s > 0 then Itoa (AnonIndex s) else [])
      else Name s)"

definition formatTypes :: "Symbol \<Rightarrow> string" where
  "formatTypes s =
     (if length (TypeArgs s) > 0 then ''['' @ Join (TypeArgs s) '', '' @ '']''
      else if length (TypeParams s) > 0
      then ''['' @ Join (map formatTypeParam (TypeParams s)) '', '' @ '']''
      else [])"

definition formatContext :: "Symbol \<Rightarrow> string" where
  "formatContext s = (if Context s \<noteq> [] then ''@'' @ Context s else [])"

definition formatMetadata :: "string list \<Rightarrow> Metadata \<Rightarrow> string" where
  "formatMetadata ks m =
     (if hasMetadata m
      then (if length (metaParts ks m) > 0 then ''{'' @ Join (metaParts ks m) '','' @ ''}''
            else [])
      else [])"

definition Format :: "string list \<Rightarrow> Symbol \<Rightarrow> string" where
  "Format ks s =
     PackagePath s @ ''.'' @ formatReceiver (Receiver s) @ formatName s @ formatTypes s @
     formatContext s @ formatMetadata ks (Metadata s)"


section \<open>The canonical parser (parse.go)\<close>

text \<open>Every \<open>return nil, fmt.Errorf(...)\<close> of \<open>Parse\<close> is one constructor.\<close>

datatype ParseError =
    EmptyString
  | EmptyContext
  | IncompleteReceiver
  | InvalidMethodFormat
  | NoPackageSeparator
  | EmptyPackageOrSymbol
  | InvalidMethodReceiver
  | ReceiverWithoutMethodName
  | UnclosedTypeBracket

subsection \<open>parseTypeArgs\<close>

text \<open>
  The loop of \<open>parseTypeArgs\<close> over the runes of its argument, with the variables \<open>args\<close>,
  \<open>current\<close>, \<open>depth\<close> and \<open>parenDepth\<close> as arguments; the last equation is the code after
  the loop.
\<close>

definition appendTrimmed :: "string list \<Rightarrow> string \<Rightarrow> string list" where
  "appendTrimmed args current =
     (let trimmed = TrimSpace current in if trimmed \<noteq> [] then args @ [trimmed] else args)"

fun typeArgsLoop :: "string list \<Rightarrow> string \<Rightarrow> int \<Rightarrow> int \<Rightarrow> string list \<Rightarrow> string list" where
  "typeArgsLoop args current depth parenDepth [] =
     (if length current > 0 then appendTrimmed args current else args)"
| "typeArgsLoop args current depth parenDepth (r # rs) =
     (if r = ''['' then typeArgsLoop args (current @ r) (depth + 1) parenDepth rs
      else if r = '']'' then typeArgsLoop args (current @ r) (depth - 1) parenDepth rs
      else if r = ''('' then typeArgsLoop args (current @ r) depth (parenDepth + 1) rs
      else if r = '')'' then typeArgsLoop args (current @ r) depth (parenDepth - 1) rs
      else if r = '','' then
        (if depth = 0 \<and> parenDepth = 0
         then typeArgsLoop (appendTrimmed args current) [] depth parenDepth rs
         else typeArgsLoop args (current @ r) depth parenDepth rs)
      else typeArgsLoop args (current @ r) depth parenDepth rs)"

definition parseTypeArgs :: "string \<Rightarrow> string list" where
  "parseTypeArgs s = (if s = [] then [] else typeArgsLoop [] [] 0 0 (runes s))"

subsection \<open>Parse\<close>

text \<open>The counting loop \<open>for i := 0; i < idx; i++\<close> over \<open>input[:idx]\<close>.\<close>

fun bracketCount :: "string \<Rightarrow> int" where
  "bracketCount [] = 0"
| "bracketCount (c # cs) =
     (if c = CHR ''['' then 1 else if c = CHR '']'' then -1 else 0) + bracketCount cs"

text \<open>The body of the loop over \<open>strings.Split(metaStr, ",")\<close>.\<close>

definition metaStep :: "Metadata \<Rightarrow> string \<Rightarrow> Metadata" where
  "metaStep m part =
     (case SplitN2 part '':'' of
        [k, v] \<Rightarrow>
          (let key = TrimSpace k; val = TrimSpace v in
           if key = ''via'' then m\<lparr>Via := val\<rparr>
           else if key = ''alias'' then m\<lparr>Alias := val\<rparr>
           else if key = ''pos'' then m\<lparr>Position := val\<rparr>
           else m\<lparr>Custom := (Custom m)(key \<mapsto> val)\<rparr>)
      | _ \<Rightarrow> m)"

text \<open>
  Lines 16 to 58: the metadata block. The result is the remaining input and the metadata.
  The allocation of an empty \<open>Custom\<close> map on line 34 changes nothing in this model.
\<close>

definition extractMetadata :: "string \<Rightarrow> string \<times> Metadata" where
  "extractMetadata input =
     (let idx = LastIndex input ''{'' in
      if idx > 0 \<and> HasSuffix input ''}'' then
        (let metaStr = take (length input - 1 - (nat idx + 1)) (drop (nat idx + 1) input) in
         if bracketCount (take (nat idx) input) = 0
         then (take (nat idx) input, foldl metaStep emptyMetadata (Split metaStr CHR '',''))
         else (input, emptyMetadata))
      else (input, emptyMetadata))"

text \<open>Lines 60 to 80: the context modifier. The result is the remaining input and the context.\<close>

definition extractContext :: "string \<Rightarrow> ParseError + string \<times> string" where
  "extractContext input =
     (let idx = LastIndex input ''@'' in
      if idx > 0 then
        (if bracketCount (take (nat idx) input) = 0 then
           (let context = drop (nat idx + 1) input in
            if context = [] then Inl EmptyContext
            else Inr (take (nat idx) input, context))
         else Inr (input, []))
      else Inr (input, []))"

text \<open>Lines 82 to 136: the package path and the symbol part.\<close>

definition splitPackage :: "string \<Rightarrow> ParseError + string \<times> string" where
  "splitPackage input =
     (if Contains input ''.('' \<and> \<not> Contains input '').'' then Inl IncompleteReceiver
      else
        (case
           (if Contains input '').'' then
              (let methodSep = LastIndex input '').'' in
               if methodSep = -1 then Inl InvalidMethodFormat
               else
                 (let l0 = LastIndex (take (nat methodSep) input) ''.('';
                      openParen = Index input ''('';
                      l1 = (if l0 = -1 \<and> openParen > 0
                            then LastIndex (take (nat openParen) input) ''.'' else l0)
                  in if l1 = -1 then Inl NoPackageSeparator
                     else Inr (take (nat l1) input, drop (nat l1 + 1) input)))
            else
              (let idx = Index input ''['' in
               if idx > 0 then
                 (let lastDot = LastIndex (take (nat idx) input) ''.'' in
                  if lastDot = -1 then Inl NoPackageSeparator
                  else Inr (take (nat lastDot) input, drop (nat lastDot + 1) input))
               else
                 (let lastDot = LastIndex input ''.'' in
                  if lastDot = -1 \<or> lastDot = 0 \<or> lastDot = int (length input) - 1
                  then Inl NoPackageSeparator
                  else Inr (take (nat lastDot) input, drop (nat lastDot + 1) input))))
         of
           Inl e \<Rightarrow> Inl e
         | Inr (packagePath, symbolPart) \<Rightarrow>
             if packagePath = [] \<or> symbolPart = [] then Inl EmptyPackageOrSymbol
             else Inr (packagePath, symbolPart)))"

text \<open>Lines 180 to 189 and 209 to 216: a bracketed list after a name.\<close>

definition receiverOf :: "string \<Rightarrow> Receiver" where
  "receiverOf recvStr0 =
     (let isPtr = HasPrefix recvStr0 ''*'';
          recvStr = (if isPtr then drop 1 recvStr0 else recvStr0);
          idx = Index recvStr ''['';
          en = LastIndex recvStr '']''
      in \<lparr>TypeName = (if idx > 0 then take (nat idx) recvStr else recvStr),
          IsPointer = isPtr,
          RecvTypeArgs =
            (if idx > 0 \<and> en > idx
             then parseTypeArgs (take (nat en - (nat idx + 1)) (drop (nat idx + 1) recvStr))
             else [])\<rparr>)"

text \<open>Lines 144 to 206: what kind of symbol the symbol part is.\<close>

definition classify :: "Symbol \<Rightarrow> string \<Rightarrow> ParseError + Symbol" where
  "classify symb symbolPart =
     (if Contains symbolPart litPart then
        (let litIndex = nat (Index symbolPart litPart);
             name = take litIndex symbolPart;
             indexStr = drop (litIndex + length litPart) symbolPart
         in Inr (symb\<lparr>Name := name, IsAnonymous := True,
                      AnonParent := PackagePath symb @ ''.'' @ name,
                      AnonIndex := (if indexStr \<noteq> [] \<and> snd (Atoi indexStr)
                                    then fst (Atoi indexStr) else AnonIndex symb)\<rparr>))
      else if HasPrefix symbolPart ''('' then
        (let recvEnd = Index symbolPart '')'' in
         if recvEnd = -1 \<or> \<not> Contains symbolPart '').'' then Inl InvalidMethodReceiver
         else
           (let recvStr = take (nat recvEnd - 1) (drop 1 symbolPart) in
            if recvEnd + 2 < int (length symbolPart)
            then Inr (symb\<lparr>Receiver := Some (receiverOf recvStr),
                           Name := drop (nat recvEnd + 2) symbolPart\<rparr>)
            else Inl ReceiverWithoutMethodName))
      else Inr (symb\<lparr>Name := symbolPart\<rparr>))"

text \<open>Lines 208 to 222: type arguments in the name.\<close>

definition nameTypeArgs :: "Symbol \<Rightarrow> ParseError + Symbol" where
  "nameTypeArgs symb =
     (if Contains (Name symb) ''['' then
        (let idx = Index (Name symb) ''['' in
         if idx > 0 then
           (let en = LastIndex (Name symb) '']'' in
            if en > idx
            then Inr (symb\<lparr>TypeArgs :=
                             parseTypeArgs (take (nat en - (nat idx + 1))
                                              (drop (nat idx + 1) (Name symb))),
                           Name := take (nat idx) (Name symb)\<rparr>)
            else Inl UnclosedTypeBracket)
         else Inr symb)
      else Inr symb)"

definition parseSymbol :: "string \<Rightarrow> ParseError + Symbol" where
  "parseSymbol input0 =
     (if input0 = [] then Inl EmptyString
      else
        (let (input1, metadata) = extractMetadata input0 in
         case extractContext input1 of
           Inl e \<Rightarrow> Inl e
         | Inr (input, context) \<Rightarrow>
             (case splitPackage input of
                Inl e \<Rightarrow> Inl e
              | Inr (packagePath, symbolPart) \<Rightarrow>
                  (let symb = zeroSymbol\<lparr>PackagePath := packagePath, Context := context,
                                         Metadata := metadata\<rparr>
                   in if symbolPart = ''init''
                      then Inr (symb\<lparr>IsInit := True, Name := ''init''\<rparr>)
                      else (case classify symb symbolPart of
                              Inl e \<Rightarrow> Inl e
                            | Inr symb' \<Rightarrow> nameTypeArgs symb')))))"

text \<open>
  \<open>Parse\<close> returns the pair \<open>(*Symbol, error)\<close>: \<open>nil\<close> is \<^term>\<open>None\<close> in either
  component.
\<close>

definition Parse :: "string \<Rightarrow> Symbol option \<times> ParseError option" where
  "Parse input =
     (case parseSymbol input of
        Inl e \<Rightarrow> (None, Some e)
      | Inr symb \<Rightarrow> (Some symb, None))"


section \<open>The adapters\<close>

subsection \<open>Regular expressions\<close>

text \<open>
  The patterns of the adapters are built from single characters, character classes, the greedy
  repetitions \<open>+\<close> and \<open>?\<close> of a class, capture groups and \<open>$\<close>, and all begin with \<open>^\<close>.
  Go's \<open>regexp\<close> finds the match that a backtracking search finds first. \<^term>\<open>ms p s\<close>
  lists the ways in which the pattern \<open>p\<close> matches a prefix of \<open>s\<close> in the order of that
  search, each with the text of its groups and the rest of the input. The classes are tested
  on bytes: every class is either a set of ASCII characters or the complement of one, and an
  ASCII byte is a rune of its own in any byte sequence.
\<close>

datatype cls = Lit char | AnyNoNL | Not char | Digit

fun okc :: "cls \<Rightarrow> char \<Rightarrow> bool" where
  "okc (Lit c) x = (x = c)"
| "okc AnyNoNL x = (x \<noteq> CHR 0x0A)"
| "okc (Not c) x = (x \<noteq> c)"
| "okc Digit x = isDigit x"

datatype item = One cls | Many1 cls | Opt cls | Grp "item list" | Eos

text \<open>The rests of the input after one or more characters of the class, the longest run first.\<close>

fun many1 :: "cls \<Rightarrow> string \<Rightarrow> string list" where
  "many1 c [] = []"
| "many1 c (x # xs) = (if okc c x then many1 c xs @ [xs] else [])"

fun ms :: "item list \<Rightarrow> string \<Rightarrow> (string list \<times> string) list" where
  "ms [] s = [([], s)]"
| "ms (One c # ps) s =
     (case s of
        [] \<Rightarrow> []
      | x # xs \<Rightarrow> if okc c x then ms ps xs else [])"
| "ms (Many1 c # ps) s = concat (map (\<lambda>r. ms ps r) (many1 c s))"
| "ms (Opt c # ps) s =
     (case s of
        [] \<Rightarrow> []
      | x # xs \<Rightarrow> if okc c x then ms ps xs else []) @ ms ps s"
| "ms (Grp g # ps) s =
     concat (map (\<lambda>(cg, r). map (\<lambda>(cs, r'). (take (length s - length r) s # cg @ cs, r'))
                                (ms ps r))
                 (ms g s))"
| "ms (Eos # ps) s = (if s = [] then ms ps s else [])"

text \<open>\<open>FindStringSubmatch\<close>: the whole match, then the groups; \<open>nil\<close> is \<^term>\<open>None\<close>.\<close>

definition FindStringSubmatch :: "item list \<Rightarrow> string \<Rightarrow> string list option" where
  "FindStringSubmatch p s =
     (case ms p s of
        [] \<Rightarrow> None
      | (caps, rest) # _ \<Rightarrow> Some (take (length s - length rest) s # caps))"

definition MatchString :: "item list \<Rightarrow> string \<Rightarrow> bool" where
  "MatchString p s = (ms p s \<noteq> [])"

definition lits :: "string \<Rightarrow> item list" where
  "lits s = map (\<lambda>c. One (Lit c)) s"

subsection \<open>The SSA adapter\<close>

definition ssaInitPattern :: "item list" where
  "ssaInitPattern = [Grp [Many1 AnyNoNL]] @ lits ''.init#'' @ [Grp [Many1 Digit], Eos]"

definition ssaFuncPattern :: "item list" where
  "ssaFuncPattern = [Grp [Many1 AnyNoNL], One (Lit CHR ''.''), Grp [Many1 (Not CHR ''.'')], Eos]"

definition ssaMethodPattern :: "item list" where
  "ssaMethodPattern =
     [Grp [Many1 AnyNoNL]] @ lits ''.('' @
     [Grp [Opt (Lit CHR ''*'')], Grp [Many1 (Not CHR '')'')]] @ lits '').'' @
     [Grp [Many1 (Not CHR ''.'')], Eos]"

definition ssaAnonPattern :: "item list" where
  "ssaAnonPattern =
     [Grp [Many1 AnyNoNL], One (Lit CHR ''.''), Grp [Many1 (Not CHR ''.'')],
      One (Lit CHR ''$''), Many1 Digit, Eos]"

definition ssaLocationPattern :: "item list" where
  "ssaLocationPattern =
     [Grp [Many1 AnyNoNL], One (Lit CHR ''@''), Grp [Many1 (Not CHR '':'')],
      One (Lit CHR '':''), Grp [Many1 Digit], One (Lit CHR '':''), Grp [Many1 Digit], Eos]"

text \<open>\<open>if location != "" { sym.Metadata = gsrf.Metadata{Position: location} }\<close>\<close>

definition withLocation :: "string \<Rightarrow> Symbol \<Rightarrow> Symbol" where
  "withLocation location symb =
     (if location \<noteq> [] then symb\<lparr>Metadata := emptyMetadata\<lparr>Position := location\<rparr>\<rparr> else symb)"

text \<open>
  \<open>FromSSA\<close> tries its patterns one after the other and returns at the first that fits;
  \<open>FromStackTrace\<close> does the same with its forms. \<^term>\<open>orElse a b\<close> is \<open>a\<close> when \<open>a\<close>
  returns a Symbol, and \<open>b\<close>, the code that follows, when it does not.
\<close>

definition orElse :: "'a option \<Rightarrow> 'a option \<Rightarrow> 'a option" where
  "orElse a b = (case a of Some x \<Rightarrow> Some x | None \<Rightarrow> b)"

text \<open>
  The four attempts of \<open>FromSSA\<close> after the location has been taken off: \<open>ssa\<close> and
  \<open>location\<close> are the two variables of that name.
\<close>

definition ssaInit :: "string \<Rightarrow> string \<Rightarrow> Symbol option" where
  "ssaInit ssa location =
     (case FindStringSubmatch ssaInitPattern ssa of
        Some matches \<Rightarrow>
          Some (withLocation location
                  (zeroSymbol\<lparr>PackagePath := matches ! 1, Name := ''init'', IsInit := True\<rparr>))
      | None \<Rightarrow> None)"

definition ssaMethod :: "string \<Rightarrow> string \<Rightarrow> Symbol option" where
  "ssaMethod ssa location =
     (case FindStringSubmatch ssaMethodPattern ssa of
        Some matches \<Rightarrow>
          Some (withLocation location
                  (zeroSymbol\<lparr>PackagePath := matches ! 1, Name := matches ! 4,
                               Receiver := Some \<lparr>TypeName = matches ! 3,
                                                  IsPointer = (matches ! 2 = ''*''),
                                                  RecvTypeArgs = []\<rparr>\<rparr>))
      | None \<Rightarrow> None)"

definition ssaAnon :: "string \<Rightarrow> string \<Rightarrow> Symbol option" where
  "ssaAnon ssa location =
     (case FindStringSubmatch ssaAnonPattern ssa of
        Some matches \<Rightarrow>
          (let parts = Split (matches ! 0) CHR ''$'' in
           if length parts = 2 then
             (let index = fst (Atoi (parts ! 1));
                  baseParts = LastIndex (parts ! 0) ''.''
              in if baseParts \<ge> 0
                 then Some (withLocation location
                              (zeroSymbol\<lparr>PackagePath := take (nat baseParts) (parts ! 0),
                                           Name := drop (nat baseParts + 1) (parts ! 0),
                                           IsAnonymous := True,
                                           AnonParent := parts ! 0,
                                           AnonIndex := index\<rparr>))
                 else None)
           else None)
      | None \<Rightarrow> None)"

definition ssaFunc :: "string \<Rightarrow> string \<Rightarrow> Symbol option" where
  "ssaFunc ssa location =
     (case FindStringSubmatch ssaFuncPattern ssa of
        Some matches \<Rightarrow>
          Some (withLocation location
                  (zeroSymbol\<lparr>PackagePath := matches ! 1, Name := matches ! 2\<rparr>))
      | None \<Rightarrow> None)"

text \<open>The error return at the end of \<open>FromSSA\<close> is \<^term>\<open>None\<close>.\<close>

definition ssaBody :: "string \<Rightarrow> string \<Rightarrow> Symbol option" where
  "ssaBody ssa location =
     orElse (ssaInit ssa location)
       (orElse (ssaMethod ssa location)
          (orElse (ssaAnon ssa location) (ssaFunc ssa location)))"

definition FromSSA :: "string \<Rightarrow> Symbol option" where
  "FromSSA ssa0 =
     (case FindStringSubmatch ssaLocationPattern ssa0 of
        Some matches \<Rightarrow>
          ssaBody (matches ! 1) (matches ! 2 @ '':'' @ matches ! 3 @ '':'' @ matches ! 4)
      | None \<Rightarrow> ssaBody ssa0 [])"

definition ToSSA :: "Symbol \<Rightarrow> string" where
  "ToSSA symb =
     PackagePath symb @ ''.'' @
     (if IsInit symb then ''init#1''
      else (case Receiver symb of
              Some r \<Rightarrow>
                ''('' @ (if IsPointer r then ''*'' else []) @ TypeName r @ '')'' @ ''.'' @ Name symb
            | None \<Rightarrow>
                if IsAnonymous symb
                then Name symb @ ''$'' @
                     (if AnonIndex symb > 0 then Itoa (AnonIndex symb) else ''1'')
                else Name symb)) @
     (if Position (Metadata symb) \<noteq> [] then ''@'' @ Position (Metadata symb) else [])"


subsection \<open>The stack-trace adapter\<close>

definition stackInitPattern :: "item list" where
  "stackInitPattern = [Grp [Many1 AnyNoNL]] @ lits ''.init.func'' @ [Many1 Digit, Eos]"

definition stackAnonPattern :: "item list" where
  "stackAnonPattern = [Grp [Many1 AnyNoNL]] @ lits ''.func'' @ [Many1 Digit]"

text \<open>
  The loop of \<open>parseTypeParams\<close> over the runes of its argument, with the variables \<open>result\<close>,
  \<open>current\<close> and \<open>depth\<close> as arguments.
\<close>

fun typeParamsLoop :: "string list \<Rightarrow> string \<Rightarrow> int \<Rightarrow> string list \<Rightarrow> string list" where
  "typeParamsLoop result current depth [] =
     (if length current > 0 then result @ [TrimSpace current] else result)"
| "typeParamsLoop result current depth (ch # rs) =
     (if ch = ''['' then typeParamsLoop result (current @ ch) (depth + 1) rs
      else if ch = '']'' then typeParamsLoop result (current @ ch) (depth - 1) rs
      else if ch = '','' then
        (if depth = 0 then typeParamsLoop (result @ [TrimSpace current]) [] depth rs
         else typeParamsLoop result (current @ ch) depth rs)
      else if ch = '' '' then
        (if depth > 0 \<or> length current > 0 then typeParamsLoop result (current @ ch) depth rs
         else typeParamsLoop result current depth rs)
      else typeParamsLoop result (current @ ch) depth rs)"

definition parseTypeParams :: "string \<Rightarrow> string list" where
  "parseTypeParams s = typeParamsLoop [] [] 0 (runes s)"

text \<open>
  Lines 21 to 32 of \<open>FromStackTrace\<close>: the file and line after the symbol are cut off.
\<close>

definition stripFileInfo :: "string \<Rightarrow> string" where
  "stripFileInfo trace =
     (let idx = Index trace '' /'' in
      if idx > 0 then take (nat idx) trace
      else
        (let idx2 = LastIndex trace '' '' in
         if idx2 > 0 then
           (let afterSpace = drop (nat idx2 + 1) trace in
            if Contains afterSpace ''.go:'' \<or> Contains afterSpace ''/''
            then take (nat idx2) trace else trace)
         else trace))"

text \<open>
  The loop that looks for the parenthesis closing the receiver: \<open>i\<close> is the byte offset of
  the character, the result is \<open>closeParen\<close>. Only ASCII characters are tested, and each is
  visited at its own offset whatever bytes surround it.
\<close>

fun closeParenLoop :: "int \<Rightarrow> bool \<Rightarrow> nat \<Rightarrow> string \<Rightarrow> int" where
  "closeParenLoop parenDepth inBrackets i [] = -1"
| "closeParenLoop parenDepth inBrackets i (ch # rest) =
     (if ch = CHR ''['' then closeParenLoop parenDepth True (i + 1) rest
      else if ch = CHR '']'' then closeParenLoop parenDepth False (i + 1) rest
      else if ch = CHR ''('' \<and> \<not> inBrackets
      then closeParenLoop (parenDepth + 1) inBrackets (i + 1) rest
      else if ch = CHR '')'' \<and> \<not> inBrackets then
        (if parenDepth - 1 = 0 then int i
         else closeParenLoop (parenDepth - 1) inBrackets (i + 1) rest)
      else closeParenLoop parenDepth inBrackets (i + 1) rest)"

text \<open>Lines 34 to 46: an init function.\<close>

definition stackInit :: "string \<Rightarrow> Symbol option" where
  "stackInit trace =
     (if MatchString stackInitPattern trace then
        (let parts = Split trace CHR ''.'' in
         if length parts \<ge> 2
         then Some (zeroSymbol\<lparr>PackagePath := Join (take (length parts - 2) parts) ''.'',
                                Name := ''init'', IsInit := True\<rparr>)
         else None)
      else None)"

text \<open>Lines 48 to 63: an anonymous function.\<close>

definition stackAnon :: "string \<Rightarrow> Symbol option" where
  "stackAnon trace =
     (case FindStringSubmatch stackAnonPattern trace of
        Some matches \<Rightarrow>
          (let base = matches ! 1;
               idx = LastIndex base ''.''
           in if idx > 0
              then Some (zeroSymbol\<lparr>PackagePath := take (nat idx) base,
                                     Name := drop (nat idx + 1) base,
                                     IsAnonymous := True,
                                     AnonParent := base\<rparr>)
              else None)
      | None \<Rightarrow> None)"

text \<open>Lines 97 to 108: the receiver type and its type arguments.\<close>

definition stackReceiver :: "string \<Rightarrow> Receiver" where
  "stackReceiver receiverContent =
     (let idx = Index receiverContent ''['';
          endBracket = LastIndex receiverContent '']''
      in \<lparr>TypeName = (if idx > 0 then take (nat idx) receiverContent else receiverContent),
          IsPointer = True,
          RecvTypeArgs =
            (if idx > 0 \<and> endBracket > idx
             then parseTypeParams
                    (take (nat endBracket - (nat idx + 1)) (drop (nat idx + 1) receiverContent))
             else [])\<rparr>)"

text \<open>Lines 65 to 130: a method.\<close>

definition stackMethod :: "string \<Rightarrow> Symbol option" where
  "stackMethod trace =
     (if Contains trace ''.(*'' then
        (let startParen = Index trace ''.(*'' in
         if startParen > 0 then
           (let pkg = take (nat startParen) trace;
                remainder = drop (nat startParen + 3) trace;
                closeParen = closeParenLoop 1 False 0 remainder
            in if closeParen > 0 then
                 (let receiverContent = take (nat closeParen) remainder;
                      afterReceiver = drop (nat closeParen + 1) remainder
                  in if HasPrefix afterReceiver ''.''
                     then Some (zeroSymbol
                                  \<lparr>PackagePath := pkg,
                                   Name := drop 1 afterReceiver,
                                   Receiver := Some (stackReceiver receiverContent)\<rparr>)
                     else None)
               else None)
         else None)
      else None)"

text \<open>Lines 132 to 157: a function with type arguments.\<close>

definition stackGeneric :: "string \<Rightarrow> Symbol option" where
  "stackGeneric trace =
     (let bracketStart = Index trace ''['' in
      if bracketStart > 0 then
        (let bracketEnd = LastIndex trace '']'' in
         if bracketEnd > bracketStart then
           (let beforeBracket = take (nat bracketStart) trace;
                lastDot = LastIndex beforeBracket ''.''
            in if lastDot > 0
               then Some (zeroSymbol
                            \<lparr>PackagePath := take (nat lastDot) trace,
                             Name := drop (nat lastDot + 1) beforeBracket,
                             TypeArgs := parseTypeParams
                                           (take (nat bracketEnd - (nat bracketStart + 1))
                                              (drop (nat bracketStart + 1) trace))\<rparr>)
               else None)
         else None)
      else None)"

text \<open>Lines 159 to 176: a plain function, or the error, which is \<^term>\<open>None\<close>.\<close>

definition stackSimple :: "string \<Rightarrow> Symbol option" where
  "stackSimple trace =
     (let lastDot = LastIndex trace ''.'' in
      if lastDot > 0 then
        (let pkg = take (nat lastDot) trace;
             funcName = drop (nat lastDot + 1) trace
         in if funcName \<noteq> []
               \<and> \<not> ContainsAny funcName (''[]()* '' @ [CHR 0x09, CHR 0x0A])
            then Some (zeroSymbol\<lparr>PackagePath := pkg, Name := funcName\<rparr>)
            else None)
      else None)"

text \<open>\<open>FromStackTrace\<close> after the file information has been cut off.\<close>

definition stackBody :: "string \<Rightarrow> Symbol option" where
  "stackBody trace =
     orElse (stackInit trace)
       (orElse (stackAnon trace)
          (orElse (stackMethod trace)
             (orElse (stackGeneric trace) (stackSimple trace))))"

definition FromStackTrace :: "string \<Rightarrow> Symbol option" where
  "FromStackTrace trace = stackBody (stripFileInfo trace)"

definition ToStackTrace :: "Symbol \<Rightarrow> string" where
  "ToStackTrace symb =
     (if IsAnonymous symb then
        (if AnonParent symb \<noteq> [] then
           AnonParent symb @ ''.func'' @
           (if AnonIndex symb > 0 then Itoa (AnonIndex symb) else ''1'')
         else [])
      else
        PackagePath symb @ ''.'' @
        (if IsInit symb then ''init.func1''
         else (case Receiver symb of
                 Some r \<Rightarrow>
                   ''(*'' @ TypeName r @
                   (if length (RecvTypeArgs r) > 0
                    then ''['' @ Join (RecvTypeArgs r) '', '' @ '']'' else []) @
                   '').'' @ Name symb
               | None \<Rightarrow>
                   Name symb @
                   (if length (TypeArgs symb) > 0
                    then ''['' @ Join (TypeArgs symb) '', '' @ '']'' else []))))"


section \<open>Predicates and inputs used in the statements\<close>

definition braceFree :: "string \<Rightarrow> bool" where
  "braceFree x = (CHR ''{'' \<notin> set x \<and> CHR ''}'' \<notin> set x)"

definition emptyMeta :: "Metadata \<Rightarrow> bool" where
  "emptyMeta m = (Via m = [] \<and> Alias m = [] \<and> Position m = [] \<and> Custom m = Map.empty)"

text \<open>No field that \<open>Format\<close> copies into its output holds a brace.\<close>

definition fieldsBraceFree :: "Symbol \<Rightarrow> bool" where
  "fieldsBraceFree s =
     (braceFree (PackagePath s) \<and> braceFree (Name s) \<and> braceFree (Context s)
      \<and> (case Receiver s of
            None \<Rightarrow> True
          | Some r \<Rightarrow> braceFree (TypeName r) \<and> list_all braceFree (RecvTypeArgs r))
      \<and> list_all braceFree (TypeArgs s)
      \<and> list_all (\<lambda>tp. braceFree (ParamName tp) \<and> braceFree (Constraint tp)) (TypeParams s))"

text \<open>Every comma of the text is met at a non-zero bracket or parenthesis depth.\<close>

fun commasNested :: "int \<Rightarrow> int \<Rightarrow> string \<Rightarrow> bool" where
  "commasNested depth parenDepth [] = True"
| "commasNested depth parenDepth (c # cs) =
     (if c = CHR ''['' then commasNested (depth + 1) parenDepth cs
      else if c = CHR '']'' then commasNested (depth - 1) parenDepth cs
      else if c = CHR ''('' then commasNested depth (parenDepth + 1) cs
      else if c = CHR '')'' then commasNested depth (parenDepth - 1) cs
      else if c = CHR '','' then (depth \<noteq> 0 \<or> parenDepth \<noteq> 0) \<and> commasNested depth parenDepth cs
      else commasNested depth parenDepth cs)"

definition ascii :: "string \<Rightarrow> bool" where
  "ascii s = list_all (\<lambda>c. (of_char c :: nat) < 0x80) s"

text \<open>The change of the parenthesis depth over a text, as \<^term>\<open>bracketCount\<close> for brackets.\<close>

fun parenCount :: "string \<Rightarrow> int" where
  "parenCount [] = 0"
| "parenCount (c # cs) =
     (if c = CHR ''('' then 1 else if c = CHR '')'' then -1 else 0) + parenCount cs"

text \<open>
  The encodings of the white-space characters of Unicode (\<open>unicode.IsSpace\<close>): the six of
  ASCII, U+0085, U+00A0, U+1680, U+2000 to U+200A, U+2028, U+2029, U+202F, U+205F and U+3000.
\<close>

definition whiteSpace :: "string list" where
  "whiteSpace =
     [[CHR 0x09], [CHR 0x0A], [CHR 0x0B], [CHR 0x0C], [CHR 0x0D], [CHR 0x20],
      [CHR 0xC2, CHR 0x85], [CHR 0xC2, CHR 0xA0], [CHR 0xE1, CHR 0x9A, CHR 0x80],
      [CHR 0xE2, CHR 0x80, CHR 0x80], [CHR 0xE2, CHR 0x80, CHR 0x81],
      [CHR 0xE2, CHR 0x80, CHR 0x82], [CHR 0xE2, CHR 0x80, CHR 0x83],
      [CHR 0xE2, CHR 0x80, CHR 0x84], [CHR 0xE2, CHR 0x80, CHR 0x85],
      [CHR 0xE2, CHR 0x80, CHR 0x86], [CHR 0xE2, CHR 0x80, CHR 0x87],
      [CHR 0xE2, CHR 0x80, CHR 0x88], [CHR 0xE2, CHR 0x80, CHR 0x89],
      [CHR 0xE2, CHR 0x80, CHR 0x8A], [CHR 0xE2, CHR 0x80, CHR 0xA8],
      [CHR 0xE2, CHR 0x80, CHR 0xA9], [CHR 0xE2, CHR 0x80, CHR 0xAF],
      [CHR 0xE2, CHR 0x81, CHR 0x9F], [CHR 0xE3, CHR 0x80, CHR 0x80]]"

text \<open>
  A text is well nested under a stack of awaited closers when its brackets and parentheses
  close in the order they were opened, ending with the stack empty, and every comma stands
  inside an open group. With the empty stack this is a type argument as the format writes
  it: no comma outside its groups.
\<close>

fun wellNested :: "string \<Rightarrow> string \<Rightarrow> bool" where
  "wellNested closers [] = (closers = [])"
| "wellNested closers (c # cs) =
     (if c = CHR ''['' then wellNested (CHR '']'' # closers) cs
      else if c = CHR ''('' then wellNested (CHR '')'' # closers) cs
      else if c = CHR '']'' \<or> c = CHR '')'' then
        (case closers of
           [] \<Rightarrow> False
         | x # closers' \<Rightarrow> x = c \<and> wellNested closers' cs)
      else if c = CHR '','' then closers \<noteq> [] \<and> wellNested closers cs
      else wellNested closers cs)"

text \<open>
  Trimming as the format describes it, written without the code: the white space of ASCII
  is dropped from both ends.
\<close>

definition blank :: "char \<Rightarrow> bool" where
  "blank c = (c \<in> set [CHR 0x09, CHR 0x0A, CHR 0x0B, CHR 0x0C, CHR 0x0D, CHR 0x20])"

definition strip :: "string \<Rightarrow> string" where
  "strip x = rev (dropWhile blank (rev (dropWhile blank x)))"

text \<open>
  Well-formed Symbols: those whose fields hold none of the characters that the format
  reserves. \<^term>\<open>without cs x\<close> says that the text \<open>x\<close> holds none of the characters \<open>cs\<close>.
\<close>

definition without :: "string \<Rightarrow> string \<Rightarrow> bool" where
  "without cs x = list_all (\<lambda>c. c \<notin> set x) cs"











section \<open>Properties\<close>

lemmas str_defs = HasPrefix_def HasSuffix_def Index_def LastIndex_def Contains_def Split_def
  SplitN2_def TrimSpace_def trimRight_def asciiSpace_def space2_def space3_def inRange_def
  runeError_def Atoi_def isDigit_def maxInt_def minInt_def ContainsAny_def

lemmas parse_defs = Parse_def parseSymbol_def extractMetadata_def extractContext_def
  splitPackage_def classify_def nameTypeArgs_def receiverOf_def parseTypeArgs_def
  appendTrimmed_def metaStep_def litPart_def zeroSymbol_def emptyMetadata_def Let_def

lemmas format_defs = Format_def formatReceiver_def formatName_def formatTypes_def
  formatContext_def formatMetadata_def metaParts_def knownParts_def customPart_def
  hasMetadata_def formatLit_def
  formatTypeParam_def

lemmas regex_defs = FindStringSubmatch_def MatchString_def lits_def

lemmas ssa_defs = FromSSA_def ssaBody_def orElse_def ssaInit_def ssaMethod_def ssaAnon_def
  ssaFunc_def withLocation_def ToSSA_def
  ssaInitPattern_def ssaFuncPattern_def ssaMethodPattern_def ssaAnonPattern_def
  ssaLocationPattern_def

lemmas stack_defs = FromStackTrace_def stackBody_def orElse_def stackInit_def stackAnon_def
  stackMethod_def stackReceiver_def stackGeneric_def stackSimple_def stripFileInfo_def parseTypeParams_def ToStackTrace_def
  stackInitPattern_def stackAnonPattern_def

subsection \<open>Join, Itoa\<close>

lemma set_Join: "set (Join xs sep) \<subseteq> (\<Union>x \<in> set xs. set x) \<union> set sep"
  by (induction xs sep rule: Join.induct) auto

lemma set_natStr: "set (natStr n) \<subseteq> set ''0123456789''"
proof (induction n rule: natStr.induct)
  case (1 n)
  have d: "\<And>k. k < 10 \<Longrightarrow> ''0123456789'' ! k \<in> set ''0123456789''"
    by (rule nth_mem) simp
  show ?case
  proof (cases "n < 10")
    case True
    then show ?thesis using d[of n] by (subst natStr.simps) simp
  next
    case False
    have "n mod 10 < 10" by simp
    then show ?thesis using False 1 d[of "n mod 10"] by (subst natStr.simps) auto
  qed
qed

lemma braceFree_Itoa: "braceFree (Itoa i)"
  using set_natStr[of "nat i"] set_natStr[of "nat (- i)"]
  by (auto simp: braceFree_def Itoa_def)

lemma braceFree_Nil [simp]: "braceFree []"
  by (simp add: braceFree_def)

lemma braceFree_Cons [simp]:
  "braceFree (c # x) = (c \<noteq> CHR ''{'' \<and> c \<noteq> CHR ''}'' \<and> braceFree x)"
  by (auto simp: braceFree_def)

lemma braceFree_append [simp]: "braceFree (a @ b) = (braceFree a \<and> braceFree b)"
  by (auto simp: braceFree_def)

lemma braceFree_Join:
  "list_all braceFree xs \<Longrightarrow> braceFree sep \<Longrightarrow> braceFree (Join xs sep)"
  using set_Join[of xs sep] by (auto simp: braceFree_def list_all_iff)

lemma formatMetadata_empty: "emptyMeta m \<Longrightarrow> formatMetadata ks m = []"
  by (simp add: formatMetadata_def hasMetadata_def emptyMeta_def)

lemma braceFree_formatReceiver:
  "(case r of None \<Rightarrow> True | Some r \<Rightarrow> braceFree (TypeName r) \<and> list_all braceFree (RecvTypeArgs r))
   \<Longrightarrow> braceFree (formatReceiver r)"
  by (cases r) (simp_all add: formatReceiver_def braceFree_Join)

lemma braceFree_formatName: "braceFree (Name s) \<Longrightarrow> braceFree (formatName s)"
  by (simp add: formatName_def formatLit_def braceFree_Itoa)

lemma braceFree_formatTypes:
  "list_all braceFree (TypeArgs s) \<Longrightarrow>
   list_all (\<lambda>tp. braceFree (ParamName tp) \<and> braceFree (Constraint tp)) (TypeParams s) \<Longrightarrow>
   braceFree (formatTypes s)"
proof -
  assume a: "list_all braceFree (TypeArgs s)"
    and p: "list_all (\<lambda>tp. braceFree (ParamName tp) \<and> braceFree (Constraint tp)) (TypeParams s)"
  have "list_all braceFree (map formatTypeParam (TypeParams s))"
    using p by (simp add: list_all_iff formatTypeParam_def)
  then show ?thesis using a
    by (simp add: formatTypes_def braceFree_Join)
qed


subsection \<open>TrimSpace\<close>

lemma length_trimLeft: "length (trimLeft x) \<le> length x"
  by (induction x rule: trimLeft.induct) auto

lemma length_trimRev: "length (trimRev x) \<le> length x"
  by (induction x rule: trimRev.induct) auto

lemma trimLeft_idem: "trimLeft (trimLeft x) = trimLeft x"
  by (induction x rule: trimLeft.induct) auto

lemma trimRev_idem: "trimRev (trimRev x) = trimRev x"
  by (induction x rule: trimRev.induct) auto

lemma trimRev_suffix: "\<exists>n. trimRev x = drop n x"
proof (induction x rule: trimRev.induct)
  case 1 then show ?case by simp
next
  case (2 a) then show ?case by (auto intro: exI[of _ 0] exI[of _ 1])
next
  case (3 a b)
  show ?case
  proof (cases "asciiSpace a")
    case True
    with 3 obtain n where "trimRev [b] = drop n [b]" by auto
    then show ?thesis using True by (intro exI[of _ "Suc n"]) simp
  next
    case False
    then show ?thesis
      by (cases "space2 b a") (auto intro: exI[of _ 0] exI[of _ 2])
  qed
next
  case (4 a b c rest)
  show ?case
  proof (cases "asciiSpace a")
    case True
    with 4 obtain n where "trimRev (b # c # rest) = drop n (b # c # rest)" by auto
    then show ?thesis using True by (intro exI[of _ "Suc n"]) simp
  next
    case False
    show ?thesis
    proof (cases "space2 b a")
      case True
      with 4 False obtain n where "trimRev (c # rest) = drop n (c # rest)" by auto
      then show ?thesis using True False by (intro exI[of _ "Suc (Suc n)"]) simp
    next
      case s2: False
      show ?thesis
      proof (cases "space3 c b a")
        case True
        with 4 False s2 obtain n where "trimRev rest = drop n rest" by auto
        then show ?thesis using True False s2 by (intro exI[of _ "Suc (Suc (Suc n))"]) simp
      next
        case False
        then show ?thesis using s2 \<open>\<not> asciiSpace a\<close> by (intro exI[of _ 0]) simp
      qed
    qed
  qed
qed

lemma trimRight_prefix: "\<exists>n. trimRight x = take n x"
proof -
  obtain n where "trimRev (rev x) = drop n (rev x)" using trimRev_suffix by blast
  then have "trimRight x = take (length x - n) x"
    by (simp add: trimRight_def rev_drop)
  then show ?thesis by blast
qed

lemma trimLeft_fix_take: "trimLeft y = y \<Longrightarrow> trimLeft (take n y) = take n y"
proof (cases y rule: trimLeft.cases)
  case 1 then show ?thesis by simp
next
  case (2 a)
  assume "trimLeft y = y"
  with 2 show ?thesis by (cases n) (auto split: if_splits)
next
  case (3 a b)
  assume f: "trimLeft y = y"
  have l: "length (trimLeft [b]) \<le> 1" using length_trimLeft[of "[b]"] by simp
  from f 3 have "\<not> asciiSpace a" using l by (auto split: if_splits)
  moreover from f 3 this have "\<not> space2 a b" by (auto split: if_splits)
  ultimately show ?thesis using 3
    by (cases n; cases "n - 1") (auto split: if_splits)
next
  case (4 a b c rest)
  assume f: "trimLeft y = y"
  have l1: "length (trimLeft (b # c # rest)) \<le> length (b # c # rest)" by (rule length_trimLeft)
  have l2: "length (trimLeft (c # rest)) \<le> length (c # rest)" by (rule length_trimLeft)
  have l3: "length (trimLeft rest) \<le> length rest" by (rule length_trimLeft)
  have na: "\<not> asciiSpace a"
  proof
    assume "asciiSpace a"
    with f 4 have "trimLeft (b # c # rest) = a # b # c # rest" by simp
    with l1 show False by simp
  qed
  have n2: "\<not> space2 a b"
  proof
    assume "space2 a b"
    with f 4 na have "trimLeft (c # rest) = a # b # c # rest" by simp
    with l2 show False by simp
  qed
  have n3: "\<not> space3 a b c"
  proof
    assume "space3 a b c"
    with f 4 na n2 have "trimLeft rest = a # b # c # rest" by simp
    with l3 show False by simp
  qed
  show ?thesis
  proof (cases n)
    case 0 then show ?thesis by simp
  next
    case (Suc n1)
    show ?thesis
    proof (cases n1)
      case 0 then show ?thesis using Suc 4 na by simp
    next
      case (Suc n2')
      show ?thesis
      proof (cases n2')
        case 0 then show ?thesis using Suc \<open>n = Suc n1\<close> 4 na n2 by simp
      next
        case (Suc n3')
        then show ?thesis using \<open>n1 = Suc n2'\<close> \<open>n = Suc n1\<close> 4 na n2 n3 by simp
      qed
    qed
  qed
qed

lemma trimRight_idem: "trimRight (trimRight x) = trimRight x"
  by (simp add: trimRight_def trimRev_idem)

lemma TrimSpace_idem: "TrimSpace (TrimSpace x) = TrimSpace x"
proof -
  obtain n where n: "trimRight (trimLeft x) = take n (trimLeft x)"
    using trimRight_prefix by blast
  have "trimLeft (take n (trimLeft x)) = take n (trimLeft x)"
    by (rule trimLeft_fix_take) (rule trimLeft_idem)
  then have "trimLeft (trimRight (trimLeft x)) = trimRight (trimLeft x)"
    by (simp add: n)
  then show ?thesis by (simp add: TrimSpace_def trimRight_idem)
qed

subsection \<open>runes of ASCII text\<close>

lemma ascii_Nil [simp]: "ascii []" by (simp add: ascii_def)
lemma ascii_Cons [simp]: "ascii (c # cs) = ((of_char c :: nat) < 0x80 \<and> ascii cs)"
  by (simp add: ascii_def)
lemma ascii_append [simp]: "ascii (a @ b) = (ascii a \<and> ascii b)"
  by (simp add: ascii_def)

lemma runes_ascii: "ascii s \<Longrightarrow> runes s = map (\<lambda>c. [c]) s"
  by (induction s) simp_all

subsection \<open>parseTypeArgs\<close>

lemma bracketCount_append [simp]: "bracketCount (a @ b) = bracketCount a + bracketCount b"
  by (induction a) simp_all

lemma parenCount_append [simp]: "parenCount (a @ b) = parenCount a + parenCount b"
  by (induction a) simp_all

lemma typeArgsLoop_nested:
  "commasNested d p a \<Longrightarrow>
   typeArgsLoop args cur d p (map (\<lambda>c. [c]) a @ rs) =
   typeArgsLoop args (cur @ a) (d + bracketCount a) (p + parenCount a) rs"
proof (induction a arbitrary: cur d p)
  case Nil
  then show ?case by simp
next
  case (Cons c a)
  have e: "\<And>x y :: int. x - 1 + y = x + (y - 1)" "\<And>x y :: int. x + 1 + y = x + (1 + y)"
    by simp_all
  from Cons show ?case by (auto simp add: e split: if_splits)
qed

lemma parseTypeArgs_nested:
  assumes "ascii s" "commasNested 0 0 s" "TrimSpace s \<noteq> []"
  shows "parseTypeArgs s = [TrimSpace s]"
proof -
  from assms(3) have ne: "s \<noteq> []" by (auto simp: TrimSpace_def trimRight_def)
  have "typeArgsLoop [] [] 0 0 (map (\<lambda>c. [c]) s @ []) =
        typeArgsLoop [] ([] @ s) (0 + bracketCount s) (0 + parenCount s) []"
    by (rule typeArgsLoop_nested) (rule assms(2))
  then show ?thesis using assms ne
    by (simp add: parseTypeArgs_def runes_ascii appendTrimmed_def)
qed

lemma appendTrimmed_elems:
  "\<forall>e \<in> set args. TrimSpace e = e \<and> e \<noteq> [] \<Longrightarrow>
   \<forall>e \<in> set (appendTrimmed args cur). TrimSpace e = e \<and> e \<noteq> []"
  by (auto simp: appendTrimmed_def Let_def TrimSpace_idem)

lemma typeArgsLoop_elems:
  "\<forall>e \<in> set args. TrimSpace e = e \<and> e \<noteq> [] \<Longrightarrow>
   \<forall>e \<in> set (typeArgsLoop args cur d p rs). TrimSpace e = e \<and> e \<noteq> []"
proof (induction rs arbitrary: args cur d p)
  case Nil
  then show ?case using appendTrimmed_elems[of args cur] by simp
next
  case (Cons r rs)
  have a: "\<forall>e \<in> set (appendTrimmed args cur). TrimSpace e = e \<and> e \<noteq> []"
    using Cons.prems by (rule appendTrimmed_elems)
  show ?case using Cons.IH[OF Cons.prems] Cons.IH[OF a] by simp
qed

lemma parseTypeArgs_elems: "\<forall>e \<in> set (parseTypeArgs s). TrimSpace e = e \<and> e \<noteq> []"
  using typeArgsLoop_elems[of "[]" "[]" 0 0 "runes s"] by (simp add: parseTypeArgs_def)


subsection \<open>Searching in concatenations\<close>


lemma HasPrefix_append [simp]: "HasPrefix (sub @ b) sub"
  by (simp add: HasPrefix_def)

lemma HasPrefix_Cons_Cons [simp]: "HasPrefix (x # s) (c # u) = (x = c \<and> HasPrefix s u)"
  by (simp add: HasPrefix_def)

lemma HasPrefix_Nil [simp]: "HasPrefix s []"
  by (simp add: HasPrefix_def)

lemma HasPrefix_Nil_left [simp]: "HasPrefix [] (c # u) = False"
  by (simp add: HasPrefix_def)












lemma Contains_Nil [simp]: "Contains [] sub = (sub = [])"
  by (simp add: Contains_def)

lemma Contains_Cons: "Contains (x # s) sub = (HasPrefix (x # s) sub \<or> Contains s sub)"
  by (simp add: Contains_def)

lemma HasPrefix_boundary:
  "c \<notin> set sub \<Longrightarrow> HasPrefix (a @ c # b) sub = HasPrefix a sub"
proof (induction a arbitrary: sub)
  case Nil
  then show ?case by (cases sub) auto
next
  case (Cons x a)
  then show ?case by (cases sub) auto
qed

lemma Contains_boundary:
  "c \<notin> set sub \<Longrightarrow> sub \<noteq> [] \<Longrightarrow> Contains (a @ c # b) sub = (Contains a sub \<or> Contains b sub)"
proof (induction a)
  case Nil
  then show ?case by (cases sub) (auto simp: Contains_Cons)
next
  case (Cons x a)
  have "HasPrefix ((x # a) @ c # b) sub = HasPrefix (x # a) sub"
    using Cons.prems(1) by (rule HasPrefix_boundary)
  then show ?case using Cons by (auto simp: Contains_Cons)
qed







subsection \<open>Split and Join\<close>







subsection \<open>The search of the regular expressions\<close>

lemma many1_stop: "b = [] \<or> \<not> okc c (hd b) \<Longrightarrow> many1 c b = []"
  by (cases b) auto

lemma many1_run:
  "\<forall>x \<in> set a. okc c x \<Longrightarrow> a \<noteq> [] \<Longrightarrow> \<exists>rs. many1 c (a @ b) = many1 c b @ b # rs"
proof (induction a)
  case Nil
  then show ?case by simp
next
  case (Cons x a)
  show ?case
  proof (cases "a = []")
    case True
    with Cons.prems show ?thesis by simp
  next
    case False
    with Cons obtain rs where "many1 c (a @ b) = many1 c b @ b # rs" by auto
    with Cons.prems show ?thesis by simp
  qed
qed






lemma concat_map_skip:
  "\<forall>r \<in> set xs. F r = [] \<Longrightarrow> concat (map F (xs @ ys)) = concat (map F ys)"
  by (induction xs) simp_all


lemma ms_Many1:
  assumes "\<forall>x \<in> set a. okc c x" "a \<noteq> []" "\<forall>r \<in> set (many1 c b). ms ps r = []"
    and "ms ps b = (cs, r') # rest0"
  shows "\<exists>rest'. ms (Many1 c # ps) (a @ b) = (cs, r') # rest'"
proof -
  from many1_run[OF assms(1,2)] obtain rs where m: "many1 c (a @ b) = many1 c b @ b # rs"
    by blast
  have "ms (Many1 c # ps) (a @ b) = concat (map (ms ps) (many1 c b @ b # rs))"
    by (simp add: m)
  also have "\<dots> = concat (map (ms ps) (b # rs))"
    using assms(3) by (rule concat_map_skip)
  also have "\<dots> = (cs, r') # (rest0 @ concat (map (ms ps) rs))"
    using assms(4) by simp
  finally show ?thesis by blast
qed





subsection \<open>White space at the ends\<close>

lemma whiteSpace_shapes:
  "list_all (\<lambda>w. (\<exists>a. w = [a] \<and> asciiSpace a) \<or> (\<exists>a b. w = [a, b] \<and> space2 a b)
                   \<or> (\<exists>a b c. w = [a, b, c] \<and> space3 a b c)) whiteSpace"
  by (simp add: whiteSpace_def asciiSpace_def space2_def space3_def)

lemma whiteSpace_shape:
  "w \<in> set whiteSpace \<Longrightarrow>
     (\<exists>a. w = [a] \<and> asciiSpace a) \<or> (\<exists>a b. w = [a, b] \<and> space2 a b)
     \<or> (\<exists>a b c. w = [a, b, c] \<and> space3 a b c)"
  using whiteSpace_shapes unfolding list_all_iff by blast

lemma trimLeft_head1: "trimLeft x = a # r \<Longrightarrow> \<not> asciiSpace a"
  by (induction x rule: trimLeft.induct) (simp_all split: if_splits)
lemma trimLeft_head2: "trimLeft x = a # b # r \<Longrightarrow> \<not> space2 a b"
  by (induction x rule: trimLeft.induct) (simp_all split: if_splits)
lemma trimLeft_head3: "trimLeft x = a # b # c # r \<Longrightarrow> \<not> space3 a b c"
  by (induction x rule: trimLeft.induct) (simp_all split: if_splits)
lemma trimRev_head1: "trimRev x = a # r \<Longrightarrow> \<not> asciiSpace a"
  by (induction x rule: trimRev.induct) (simp_all split: if_splits)
lemma trimRev_head2: "trimRev x = a # b # r \<Longrightarrow> \<not> space2 b a"
  by (induction x rule: trimRev.induct) (simp_all split: if_splits)
lemma trimRev_head3: "trimRev x = a # b # c # r \<Longrightarrow> \<not> space3 c b a"
  by (induction x rule: trimRev.induct) (simp_all split: if_splits)

lemma HasPrefix_1: "HasPrefix y [a] = (\<exists>r. y = a # r)"
  by (cases y) auto

lemma HasPrefix_2: "HasPrefix y [a, b] = (\<exists>r. y = a # b # r)"
  by (cases y rule: trimLeft.cases) auto

lemma HasPrefix_3: "HasPrefix y [a, b, c] = (\<exists>r. y = a # b # c # r)"
  by (cases y rule: trimLeft.cases) auto

lemma trimLeft_no_space:
  assumes "w \<in> set whiteSpace" shows "\<not> HasPrefix (trimLeft x) w"
proof
  assume h: "HasPrefix (trimLeft x) w"
  from whiteSpace_shape[OF assms] consider a where "w = [a]" "asciiSpace a"
    | a b where "w = [a, b]" "space2 a b"
    | a b c where "w = [a, b, c]" "space3 a b c"
    by auto
  then show False
  proof cases
    case 1 with h show False using trimLeft_head1 by (auto simp: HasPrefix_1)
  next
    case 2 with h show False using trimLeft_head2 by (auto simp: HasPrefix_2)
  next
    case 3 with h show False using trimLeft_head3 by (auto simp: HasPrefix_3)
  qed
qed

lemma HasSuffix_rev: "HasSuffix e w \<Longrightarrow> HasPrefix (rev e) (rev w)"
proof -
  assume "HasSuffix e w"
  then have "e = take (length e - length w) e @ w"
    unfolding HasSuffix_def by (metis append_take_drop_id)
  then have "rev e = rev w @ rev (take (length e - length w) e)"
    by (metis rev_append)
  then show ?thesis by (metis HasPrefix_append)
qed

lemma trimRight_no_space:
  assumes "w \<in> set whiteSpace" shows "\<not> HasSuffix (trimRight x) w"
proof
  assume "HasSuffix (trimRight x) w"
  then have h: "HasPrefix (trimRev (rev x)) (rev w)"
    using HasSuffix_rev[of "trimRight x" w] by (simp add: trimRight_def)
  from whiteSpace_shape[OF assms] consider a where "w = [a]" "asciiSpace a"
    | a b where "w = [a, b]" "space2 a b"
    | a b c where "w = [a, b, c]" "space3 a b c"
    by auto
  then show False
  proof cases
    case 1 with h show False using trimRev_head1 by (auto simp: HasPrefix_1)
  next
    case 2 with h show False using trimRev_head2 by (auto simp: HasPrefix_2)
  next
    case 3 with h show False using trimRev_head3 by (auto simp: HasPrefix_3)
  qed
qed

lemma HasPrefix_take: "HasPrefix (take n y) w \<Longrightarrow> HasPrefix y w"
proof -
  assume "HasPrefix (take n y) w"
  then have t: "take (length w) (take n y) = w" by (simp add: HasPrefix_def)
  then have "length w \<le> n" by (metis length_take min.cobounded2 min.cobounded1 le_trans)
  with t show ?thesis by (simp add: HasPrefix_def min_def)
qed

lemma TrimSpace_no_space:
  assumes "w \<in> set whiteSpace"
  shows "\<not> HasPrefix (TrimSpace x) w \<and> \<not> HasSuffix (TrimSpace x) w"
proof -
  obtain n where n: "trimRight (trimLeft x) = take n (trimLeft x)"
    using trimRight_prefix by blast
  have "\<not> HasPrefix (take n (trimLeft x)) w"
    using HasPrefix_take trimLeft_no_space[OF assms] by blast
  then have "\<not> HasPrefix (TrimSpace x) w" by (simp add: TrimSpace_def n)
  moreover have "\<not> HasSuffix (TrimSpace x) w"
    unfolding TrimSpace_def by (rule trimRight_no_space[OF assms])
  ultimately show ?thesis by blast
qed

lemma asciiSpace_blank: "asciiSpace a = blank a"
  by (simp add: asciiSpace_def blank_def)

lemma ascii_not_space2: "(of_char a :: nat) < 0x80 \<Longrightarrow> \<not> space2 a b"
  by (auto simp: space2_def)

lemma ascii_not_space3: "(of_char a :: nat) < 0x80 \<Longrightarrow> \<not> space3 a b c"
  by (auto simp: space3_def)

lemma trimLeft_ascii: "ascii x \<Longrightarrow> trimLeft x = dropWhile blank x"
  by (induction x rule: trimLeft.induct)
     (simp_all add: asciiSpace_blank ascii_not_space2 ascii_not_space3)

lemma trimRev_ascii: "ascii x \<Longrightarrow> trimRev x = dropWhile blank x"
  by (induction x rule: trimRev.induct)
     (simp_all add: asciiSpace_blank ascii_not_space2 ascii_not_space3)

lemma ascii_dropWhile: "ascii x \<Longrightarrow> ascii (dropWhile P x)"
  unfolding ascii_def list_all_iff by (meson set_dropWhileD)

lemma ascii_rev: "ascii (rev x) = ascii x"
  by (simp add: ascii_def list_all_iff)

lemma TrimSpace_ascii: "ascii x \<Longrightarrow> TrimSpace x = strip x"
  by (simp add: TrimSpace_def trimRight_def strip_def trimLeft_ascii trimRev_ascii
      ascii_dropWhile ascii_rev)

subsection \<open>Lists of type arguments\<close>

lemma commasNested_append:
  "commasNested d p (a @ b) =
     (commasNested d p a \<and> commasNested (d + bracketCount a) (p + parenCount a) b)"
proof (induction a arbitrary: d p)
  case Nil
  then show ?case by simp
next
  case (Cons c a)
  have e: "\<And>x y :: int. x - 1 + y = x + (y - 1)" "\<And>x y :: int. x + 1 + y = x + (1 + y)"
    by simp_all
  from Cons show ?case by (auto simp add: e)
qed

lemma wellNested_closers:
  "wellNested st s \<Longrightarrow> \<forall>x \<in> set st. x = CHR '']'' \<or> x = CHR '')''"
proof (induction s arbitrary: st)
  case Nil
  then show ?case by simp
next
  case (Cons c s)
  then show ?case
    by (fastforce split: if_splits list.splits)
qed

lemma wellNested_counts:
  "wellNested st s \<Longrightarrow>
     commasNested (int (count_list st CHR '']'')) (int (count_list st CHR '')'')) s
     \<and> bracketCount s = - int (count_list st CHR '']'')
     \<and> parenCount s = - int (count_list st CHR '')'')"
proof (induction s arbitrary: st)
  case Nil
  then show ?case by simp
next
  case (Cons c s)
  show ?case
  proof (cases "c = CHR ''[''")
    case True
    with Cons.prems have "wellNested (CHR '']'' # st) s" by simp
    from Cons.IH[OF this] True show ?thesis by (simp add: add.commute)
  next
    case nb: False
    show ?thesis
    proof (cases "c = CHR ''(''")
      case True
      with Cons.prems have "wellNested (CHR '')'' # st) s" by simp
      from Cons.IH[OF this] True show ?thesis by (simp add: add.commute)
    next
      case np: False
      show ?thesis
      proof (cases "c = CHR '']'' \<or> c = CHR '')''")
        case True
        with Cons.prems nb np obtain st' where st: "st = c # st'" and w: "wellNested st' s"
          by (auto split: list.splits)
        from Cons.IH[OF w] True st show ?thesis by auto
      next
        case nc: False
        show ?thesis
        proof (cases "c = CHR '',''")
          case True
          with Cons.prems have ne: "st \<noteq> []" and w: "wellNested st s" by simp_all
          from w have ok: "\<forall>x \<in> set st. x = CHR '']'' \<or> x = CHR '')''"
            by (rule wellNested_closers)
          with ne have "count_list st CHR '']'' \<noteq> 0 \<or> count_list st CHR '')'' \<noteq> 0"
            by (cases st) auto
          with Cons.IH[OF w] True show ?thesis by simp
        next
          case False
          with Cons.prems nb np nc have "wellNested st s" by simp
          from Cons.IH[OF this] False nb np nc show ?thesis by simp
        qed
      qed
    qed
  qed
qed


lemma typeArgsLoop_Join:
  assumes "\<forall>x \<in> set xs. ascii x \<and> wellNested [] x"
  shows "typeArgsLoop args [] 0 0 (map (\<lambda>c. [c]) (Join xs '','')) =
         args @ filter (\<lambda>e. e \<noteq> []) (map TrimSpace xs)"
  using assms
proof (induction xs "'',''" arbitrary: args rule: Join.induct)
  case 1
  then show ?case by simp
next
  case (2 x)
  then have w: "commasNested 0 0 x" using wellNested_counts[of "[]" x] by simp
  have "typeArgsLoop args [] 0 0 (map (\<lambda>c. [c]) x @ []) =
        typeArgsLoop args ([] @ x) (0 + bracketCount x) (0 + parenCount x) []"
    using w by (rule typeArgsLoop_nested)
  then show ?case
    by (auto simp: appendTrimmed_def Let_def TrimSpace_def trimRight_def)
next
  case (3 x y ys)
  then have w: "commasNested 0 0 x" "bracketCount x = 0" "parenCount x = 0"
    using wellNested_counts[of "[]" x] by simp_all
  let ?rest = "map (\<lambda>c. [c]) (Join (y # ys) '','')"
  have "typeArgsLoop args [] 0 0 (map (\<lambda>c. [c]) x @ ('','' # ?rest)) =
        typeArgsLoop args ([] @ x) (0 + bracketCount x) (0 + parenCount x) ('','' # ?rest)"
    using w(1) by (rule typeArgsLoop_nested)
  also have "\<dots> = typeArgsLoop (appendTrimmed args x) [] 0 0 ?rest"
    using w by simp
  also have "\<dots> = appendTrimmed args x @ filter (\<lambda>e. e \<noteq> []) (map TrimSpace (y # ys))"
    using 3 by simp
  finally show ?case by (simp add: appendTrimmed_def Let_def)
qed

lemma ascii_Join: "\<forall>x \<in> set xs. ascii x \<Longrightarrow> ascii sep \<Longrightarrow> ascii (Join xs sep)"
  by (induction xs sep rule: Join.induct) simp_all

lemma parseTypeArgs_Join:
  assumes "\<forall>x \<in> set xs. ascii x \<and> wellNested [] x"
  shows "parseTypeArgs (Join xs '','') = filter (\<lambda>e. e \<noteq> []) (map TrimSpace xs)"
proof -
  have a: "ascii (Join xs '','')" using assms by (intro ascii_Join) simp_all
  have "parseTypeArgs (Join xs '','') = typeArgsLoop [] [] 0 0 (runes (Join xs '',''))"
    by (simp add: parseTypeArgs_def)
  then show ?thesis using typeArgsLoop_Join[OF assms, of "[]"] by (simp add: runes_ascii[OF a])
qed

lemma parseTypeArgs_trimmed:
  "e \<in> set (parseTypeArgs s) \<Longrightarrow> w \<in> set whiteSpace \<Longrightarrow>
     e \<noteq> [] \<and> \<not> HasPrefix e w \<and> \<not> HasSuffix e w"
  using parseTypeArgs_elems[of s] TrimSpace_no_space[of w e] by auto

subsection \<open>Error literals\<close>

lemma Parse_error_no_symbol: "snd (Parse input) \<noteq> None \<longrightarrow> fst (Parse input) = None"
  by (simp add: Parse_def split: sum.splits)

text \<open>
  Claim C3. \<open>Parse\<close> returns an error on the empty string (empty input), on
  \<open>invalidformat\<close> (no package separator), on \<open>pkg.(*Type\<close> (incomplete receiver), on
  \<open>pkg.Function@\<close> (empty context) and on \<open>pkg.Function[T\<close> (unclosed type bracket); and
  whenever \<open>Parse\<close> returns an error, the Symbol it returns with it is \<open>nil\<close>.
\<close>

theorem Parse_error_literals:
  "Parse [] = (None, Some EmptyString)
   \<and> Parse ''invalidformat'' = (None, Some NoPackageSeparator)
   \<and> Parse ''pkg.(*Type'' = (None, Some IncompleteReceiver)
   \<and> Parse ''pkg.Function@'' = (None, Some EmptyContext)
   \<and> Parse ''pkg.Function[T'' = (None, Some UnclosedTypeBracket)
   \<and> (\<forall>input. snd (Parse input) \<noteq> None \<longrightarrow> fst (Parse input) = None)"
proof -
  have "Parse [] = (None, Some EmptyString)"
    by (simp add: parse_defs str_defs)
  moreover have "Parse ''invalidformat'' = (None, Some NoPackageSeparator)"
    by (simp add: parse_defs str_defs)
  moreover have "Parse ''pkg.(*Type'' = (None, Some IncompleteReceiver)"
    by (simp add: parse_defs str_defs)
  moreover have "Parse ''pkg.Function@'' = (None, Some EmptyContext)"
    by (simp add: parse_defs str_defs)
  moreover have "Parse ''pkg.Function[T'' = (None, Some UnclosedTypeBracket)"
    by (simp add: parse_defs str_defs)
  ultimately show ?thesis using Parse_error_no_symbol by blast
qed

text \<open>The last part of C3 at the input \<open>pkg.Function@\<close>, which does return an error.\<close>

theorem Parse_error_literals_witness:
  "snd (Parse ''pkg.Function@'') \<noteq> None \<and> fst (Parse ''pkg.Function@'') = None"
proof -
  have a: "Parse ''pkg.Function@'' = (None, Some EmptyContext)"
    using Parse_error_literals by blast
  have b: "snd (Parse ''pkg.Function@'') \<noteq> None \<longrightarrow> fst (Parse ''pkg.Function@'') = None"
    using Parse_error_literals by blast
  from a b show ?thesis by simp
qed

subsection \<open>A metadata block whose value holds a block\<close>

text \<open>
  Claim C4 says that for \<open>myapp.(*App).Start{via:Component{via:Lifecycle}}\<close> the parser
  finds the brace that matches the final one, and returns the name \<open>Start\<close> with
  \<open>via = Component{via:Lifecycle}\<close>. The code cuts at the last opening brace
  (\<open>strings.LastIndex\<close>): on this input it returns the name \<open>Start{via:Component\<close> and
  \<open>via = Lifecycle}\<close>.
\<close>

theorem Parse_nested_via:
  "Parse ''myapp.(*App).Start{via:Component{via:Lifecycle}}'' =
     (Some (zeroSymbol\<lparr>PackagePath := ''myapp'', Name := ''Start{via:Component'',
        Receiver := Some \<lparr>TypeName = ''App'', IsPointer = True, RecvTypeArgs = []\<rparr>,
        Metadata := emptyMetadata\<lparr>Via := ''Lifecycle}''\<rparr>\<rparr>), None)"
  by (simp add: parse_defs str_defs)

subsection \<open>No metadata, no block\<close>

text \<open>
  Claim C8 as stated, that the output of \<open>Format\<close> for a Symbol with all-empty metadata holds
  no brace, fails for a Symbol with a brace in another field: \<open>Parse\<close> returns such a Symbol
  for \<open>pkg.F{\<close>, and \<open>Format\<close> gives the input back.
\<close>

theorem Format_brace_counterexample:
  "Parse ''pkg.F{'' = (Some (zeroSymbol\<lparr>PackagePath := ''pkg'', Name := ''F{''\<rparr>), None)
   \<and> emptyMeta (Metadata (zeroSymbol\<lparr>PackagePath := ''pkg'', Name := ''F{''\<rparr>))
   \<and> CHR ''{'' \<in> set (Format [] (zeroSymbol\<lparr>PackagePath := ''pkg'', Name := ''F{''\<rparr>))"
  by (simp add: parse_defs str_defs format_defs emptyMeta_def)

text \<open>
  Claim C8, amended. For a Symbol with all-empty metadata \<open>Format\<close> writes no metadata
  block: the output ends with the context, and it holds a brace only if the package path,
  the name, the context, the receiver, a type argument or a type parameter does.
\<close>

theorem Format_no_metadata_block:
  "emptyMeta (Metadata s) \<Longrightarrow>
     Format ks s = PackagePath s @ ''.'' @ formatReceiver (Receiver s) @ formatName s @
                   formatTypes s @ formatContext s
     \<and> (fieldsBraceFree s \<longrightarrow> CHR ''{'' \<notin> set (Format ks s) \<and> CHR ''}'' \<notin> set (Format ks s))"
proof -
  assume e: "emptyMeta (Metadata s)"
  have f: "Format ks s = PackagePath s @ ''.'' @ formatReceiver (Receiver s) @ formatName s @
                   formatTypes s @ formatContext s"
    by (simp add: Format_def formatMetadata_empty[OF e])
  have "braceFree (Format ks s)" if w: "fieldsBraceFree s"
  proof -
    have "braceFree (formatReceiver (Receiver s))"
      using w by (intro braceFree_formatReceiver) (simp add: fieldsBraceFree_def)
    moreover have "braceFree (formatName s)"
      using w by (intro braceFree_formatName) (simp add: fieldsBraceFree_def)
    moreover have "braceFree (formatTypes s)"
      using w by (intro braceFree_formatTypes) (simp_all add: fieldsBraceFree_def)
    moreover have "braceFree (formatContext s)"
      using w by (simp add: formatContext_def fieldsBraceFree_def)
    moreover have "braceFree (PackagePath s)"
      using w by (simp add: fieldsBraceFree_def)
    ultimately show ?thesis by (simp add: f)
  qed
  then show ?thesis using f by (simp add: braceFree_def)
qed

theorem Format_no_metadata_block_witness:
  "emptyMeta (Metadata (zeroSymbol\<lparr>PackagePath := ''pkg'', Name := ''Func''\<rparr>))
   \<and> fieldsBraceFree (zeroSymbol\<lparr>PackagePath := ''pkg'', Name := ''Func''\<rparr>)
   \<and> Format [] (zeroSymbol\<lparr>PackagePath := ''pkg'', Name := ''Func''\<rparr>) = ''pkg.Func''
   \<and> CHR ''{'' \<notin> set (Format [] (zeroSymbol\<lparr>PackagePath := ''pkg'', Name := ''Func''\<rparr>))"
proof -
  let ?s = "zeroSymbol\<lparr>PackagePath := ''pkg'', Name := ''Func''\<rparr>"
  have e: "emptyMeta (Metadata ?s)" by (simp add: emptyMeta_def zeroSymbol_def emptyMetadata_def)
  have w: "fieldsBraceFree ?s" by (simp add: fieldsBraceFree_def zeroSymbol_def)
  have v: "Format [] ?s = ''pkg.Func''" by (simp add: format_defs zeroSymbol_def emptyMetadata_def)
  from Format_no_metadata_block[OF e, of "[]"] w have "CHR ''{'' \<notin> set (Format [] ?s)" by blast
  with e w v show ?thesis by blast
qed


subsection \<open>Nested type arguments\<close>

text \<open>
  Claim C7. \<open>Parse("pkg.Transform[Map[K, V], List[T]]")\<close> succeeds with package path
  \<open>pkg\<close>, name \<open>Transform\<close> and the type arguments \<open>Map[K, V]\<close> and \<open>List[T]\<close>; the
  same two arguments come out when blanks stand before and after each of them. In general,
  when well-nested ASCII texts are joined by commas, \<open>parseTypeArgs\<close> returns exactly those
  texts, each with the white space dropped from both ends, the empty ones left out: the
  commas inside their groups split nothing. And for every input, every element returned
  is non-empty and neither begins nor ends with a white-space character.
\<close>

theorem Parse_nested_type_args:
  "Parse ''pkg.Transform[Map[K, V], List[T]]'' =
     (Some (zeroSymbol\<lparr>PackagePath := ''pkg'', Name := ''Transform'',
              TypeArgs := [''Map[K, V]'', ''List[T]'']\<rparr>), None)
   \<and> parseTypeArgs '' Map[K, V] , List[T] '' = [''Map[K, V]'', ''List[T]'']
   \<and> (\<forall>xs. (\<forall>x \<in> set xs. ascii x \<and> wellNested [] x) \<longrightarrow>
          parseTypeArgs (Join xs '','') = filter (\<lambda>e. e \<noteq> []) (map strip xs))
   \<and> (\<forall>s e w. e \<in> set (parseTypeArgs s) \<and> w \<in> set whiteSpace \<longrightarrow>
          e \<noteq> [] \<and> \<not> HasPrefix e w \<and> \<not> HasSuffix e w)"
proof -
  have "Parse ''pkg.Transform[Map[K, V], List[T]]'' =
     (Some (zeroSymbol\<lparr>PackagePath := ''pkg'', Name := ''Transform'',
              TypeArgs := [''Map[K, V]'', ''List[T]'']\<rparr>), None)"
    by (simp add: parse_defs str_defs)
  moreover have "parseTypeArgs '' Map[K, V] , List[T] '' = [''Map[K, V]'', ''List[T]'']"
    by (simp add: parse_defs str_defs)
  moreover have "parseTypeArgs (Join xs '','') = filter (\<lambda>e. e \<noteq> []) (map strip xs)"
    if h: "\<forall>x \<in> set xs. ascii x \<and> wellNested [] x" for xs
  proof -
    from h have "map TrimSpace xs = map strip xs" by (simp add: TrimSpace_ascii)
    with parseTypeArgs_Join[OF h] show ?thesis by simp
  qed
  ultimately show ?thesis using parseTypeArgs_trimmed by blast
qed

text \<open>
  The general parts of C7 at the texts \<open>Map[K, V]\<close>, followed by a blank, and \<open>List[T]\<close>,
  after a blank.
\<close>

theorem Parse_nested_type_args_witness:
  "ascii ''Map[K, V] '' \<and> wellNested [] ''Map[K, V] ''
   \<and> ascii '' List[T]'' \<and> wellNested [] '' List[T]''
   \<and> parseTypeArgs ''Map[K, V] , List[T]'' = [''Map[K, V]'', ''List[T]'']
   \<and> ''Map[K, V]'' \<in> set (parseTypeArgs ''Map[K, V] , List[T]'')
   \<and> '' '' \<in> set whiteSpace
   \<and> \<not> HasPrefix ''Map[K, V]'' '' '' \<and> \<not> HasSuffix ''Map[K, V]'' '' ''"
proof -
  let ?xs = "[''Map[K, V] '', '' List[T]'']"
  have h: "\<forall>x \<in> set ?xs. ascii x \<and> wellNested [] x" by simp
  from Parse_nested_type_args
  have "(\<forall>x \<in> set ?xs. ascii x \<and> wellNested [] x) \<longrightarrow>
          parseTypeArgs (Join ?xs '','') = filter (\<lambda>e. e \<noteq> []) (map strip ?xs)"
    by blast
  with h have "parseTypeArgs (Join ?xs '','') = filter (\<lambda>e. e \<noteq> []) (map strip ?xs)"
    by blast
  then have p: "parseTypeArgs ''Map[K, V] , List[T]'' = [''Map[K, V]'', ''List[T]'']"
    by (simp add: strip_def blank_def)
  then have m: "''Map[K, V]'' \<in> set (parseTypeArgs ''Map[K, V] , List[T]'')" by simp
  have w: "'' '' \<in> set whiteSpace" by (simp add: whiteSpace_def)
  from Parse_nested_type_args
  have "''Map[K, V]'' \<in> set (parseTypeArgs ''Map[K, V] , List[T]'') \<and> '' '' \<in> set whiteSpace
        \<longrightarrow> ''Map[K, V]'' \<noteq> [] \<and> \<not> HasPrefix ''Map[K, V]'' '' '' \<and> \<not> HasSuffix ''Map[K, V]'' '' ''"
    by blast
  with m w have "\<not> HasPrefix ''Map[K, V]'' '' '' \<and> \<not> HasSuffix ''Map[K, V]'' '' ''" by blast
  with h p m w show ?thesis by simp
qed

subsection \<open>Adapters: anonymous index zero\<close>

text \<open>
  Claim C10 as stated fails: \<open>ToStackTrace\<close> renders an anonymous Symbol with an empty
  \<open>AnonParent\<close> as the empty string, also when it is an init Symbol; \<open>ToSSA\<close> puts the
  position after the \<open>$1\<close>, and renders an anonymous Symbol that has a receiver as a
  method.
\<close>

theorem anon_zero_counterexample:
  "IsAnonymous (zeroSymbol\<lparr>PackagePath := ''main'', Name := ''main'', IsAnonymous := True\<rparr>)
   \<and> AnonIndex (zeroSymbol\<lparr>PackagePath := ''main'', Name := ''main'', IsAnonymous := True\<rparr>) = 0
   \<and> ToStackTrace (zeroSymbol\<lparr>PackagePath := ''main'', Name := ''main'', IsAnonymous := True\<rparr>) = []
   \<and> FromSSA ''pkg.F$0@f.go:1:2'' =
       Some (zeroSymbol\<lparr>PackagePath := ''pkg'', Name := ''F'', IsAnonymous := True,
               AnonParent := ''pkg.F'', Metadata := emptyMetadata\<lparr>Position := ''f.go:1:2''\<rparr>\<rparr>)
   \<and> \<not> HasSuffix (ToSSA (zeroSymbol\<lparr>PackagePath := ''pkg'', Name := ''F'', IsAnonymous := True,
               AnonParent := ''pkg.F'', Metadata := emptyMetadata\<lparr>Position := ''f.go:1:2''\<rparr>\<rparr>)) ''$1''
   \<and> ToSSA (zeroSymbol\<lparr>PackagePath := ''pkg'', Name := ''M'', IsAnonymous := True,
               Receiver := Some \<lparr>TypeName = ''T'', IsPointer = True, RecvTypeArgs = []\<rparr>\<rparr>)
      = ''pkg.(*T).M''
   \<and> ToStackTrace (zeroSymbol\<lparr>PackagePath := ''pkg'', Name := ''init'', IsInit := True,
                      IsAnonymous := True\<rparr>) = []"
  by (simp add: ssa_defs stack_defs regex_defs str_defs zeroSymbol_def emptyMetadata_def Let_def)

text \<open>
  Claim C10, amended. For a Symbol with \<open>IsAnonymous\<close> and \<open>AnonIndex = 0\<close>: \<open>ToSSA\<close>
  renders package path, name and \<open>$1\<close>, then \<open>@\<close> and the position if there is one, when
  the Symbol is neither init nor a method; \<open>ToStackTrace\<close> renders \<open>AnonParent\<close> and
  \<open>.func1\<close> when \<open>AnonParent\<close> is not empty, and the empty string when it is;
  \<open>ToStackTrace\<close> renders an init Symbol that is not anonymous as the package path and
  \<open>.init.func1\<close>; and \<open>Format\<close> writes the name and the marker with no numeral.
\<close>

theorem anon_zero_renders_one:
  "(IsAnonymous s \<and> AnonIndex s = 0 \<and> \<not> IsInit s \<and> Receiver s = None \<longrightarrow>
      ToSSA s = PackagePath s @ ''.'' @ Name s @ ''$1'' @
                (if Position (Metadata s) \<noteq> [] then ''@'' @ Position (Metadata s) else []))
   \<and> (IsAnonymous s \<and> AnonIndex s = 0 \<and> AnonParent s \<noteq> [] \<longrightarrow>
        ToStackTrace s = AnonParent s @ ''.func1'')
   \<and> (IsAnonymous s \<and> AnonParent s = [] \<longrightarrow> ToStackTrace s = [])
   \<and> (IsInit s \<and> \<not> IsAnonymous s \<longrightarrow> ToStackTrace s = PackagePath s @ ''.init.func1'')
   \<and> (IsAnonymous s \<and> AnonIndex s = 0 \<longrightarrow> formatName s = Name s @ formatLit)"
  by (simp add: ToSSA_def ToStackTrace_def formatName_def)

text \<open>The parts of the amended C10 at three Symbols.\<close>

theorem anon_zero_renders_one_witness:
  "ToSSA (zeroSymbol\<lparr>PackagePath := ''pkg'', Name := ''F'', IsAnonymous := True,
            AnonParent := ''pkg.F''\<rparr>) = ''pkg.F$1''
   \<and> ToStackTrace (zeroSymbol\<lparr>PackagePath := ''pkg'', Name := ''F'', IsAnonymous := True,
            AnonParent := ''pkg.F''\<rparr>) = ''pkg.F.func1''
   \<and> ToStackTrace (zeroSymbol\<lparr>PackagePath := ''main'', Name := ''main'', IsAnonymous := True\<rparr>) = []
   \<and> ToStackTrace (zeroSymbol\<lparr>PackagePath := ''pkg'', Name := ''init'', IsInit := True\<rparr>)
      = ''pkg.init.func1''
   \<and> formatName (zeroSymbol\<lparr>PackagePath := ''pkg'', Name := ''F'', IsAnonymous := True,
            AnonParent := ''pkg.F''\<rparr>) = ''F'' @ formatLit"
proof -
  let ?a = "zeroSymbol\<lparr>PackagePath := ''pkg'', Name := ''F'', IsAnonymous := True,
            AnonParent := ''pkg.F''\<rparr>"
  let ?m = "zeroSymbol\<lparr>PackagePath := ''main'', Name := ''main'', IsAnonymous := True\<rparr>"
  let ?i = "zeroSymbol\<lparr>PackagePath := ''pkg'', Name := ''init'', IsInit := True\<rparr>"
  have ha: "IsAnonymous ?a \<and> AnonIndex ?a = 0 \<and> \<not> IsInit ?a \<and> Receiver ?a = None
            \<and> AnonParent ?a \<noteq> [] \<and> Position (Metadata ?a) = []"
    by (simp add: zeroSymbol_def emptyMetadata_def)
  have hm: "IsAnonymous ?m \<and> AnonParent ?m = []" by (simp add: zeroSymbol_def)
  have hi: "IsInit ?i \<and> \<not> IsAnonymous ?i" by (simp add: zeroSymbol_def)
  from anon_zero_renders_one[of ?a] ha
  have 1: "ToSSA ?a = PackagePath ?a @ ''.'' @ Name ?a @ ''$1''"
    and 2: "ToStackTrace ?a = AnonParent ?a @ ''.func1''"
    and 5: "formatName ?a = Name ?a @ formatLit" by simp_all
  from anon_zero_renders_one[of ?m] hm have 3: "ToStackTrace ?m = []" by blast
  from anon_zero_renders_one[of ?i] hi have 4: "ToStackTrace ?i = PackagePath ?i @ ''.init.func1''"
    by blast
  from 1 2 3 4 5 show ?thesis by (simp add: zeroSymbol_def)
qed


subsection \<open>Order of the custom entries\<close>

lemma rangeOrder_mset: "rangeOrder m ks \<Longrightarrow> rangeOrder m ks' \<Longrightarrow> mset ks = mset ks'"
  using set_eq_iff_mset_eq_distinct[of ks ks'] by (simp add: rangeOrder_def)

lemma rangeOrder_single:
  assumes "rangeOrder m ks" "rangeOrder m ks'" "\<forall>k \<in> dom m. \<forall>k' \<in> dom m. k = k'"
  shows "ks = ks'"
proof -
  have one: "xs = [] \<or> (\<exists>x. xs = [x])"
    if d: "distinct xs" and e: "\<forall>x \<in> set xs. \<forall>y \<in> set xs. x = y" for xs :: "string list"
  proof (cases xs)
    case Nil
    then show ?thesis by simp
  next
    case (Cons x ys)
    have "ys = []"
    proof (rule ccontr)
      assume "ys \<noteq> []"
      then obtain y zs where y: "ys = y # zs" by (cases ys) auto
      from Cons y have "x \<in> set xs" "y \<in> set xs" by simp_all
      with e have "x = y" by blast
      moreover from d Cons y have "x \<noteq> y" by auto
      ultimately show False by blast
    qed
    with Cons show ?thesis by simp
  qed
  from assms have a: "ks = [] \<or> (\<exists>x. ks = [x])" and b: "ks' = [] \<or> (\<exists>x. ks' = [x])"
    using one[of ks] one[of ks'] by (simp_all add: rangeOrder_def)
  from assms have "set ks = set ks'" by (simp add: rangeOrder_def)
  with a b show ?thesis by auto
qed

lemma length_Join:
  "length (Join xs sep) = sum_list (map length xs) + (length xs - 1) * length sep"
  by (induction xs sep rule: Join.induct) simp_all

text \<open>
  Claim C6 as stated fails: a Symbol with the custom keys \<open>a\<close> and \<open>b\<close> has two orders of
  visit, and \<open>Format\<close> gives a different output for each.
\<close>

theorem Format_order_counterexample:
  "rangeOrder [''a'' \<mapsto> ''1'', ''b'' \<mapsto> ''2''] [''a'', ''b'']
   \<and> rangeOrder [''a'' \<mapsto> ''1'', ''b'' \<mapsto> ''2''] [''b'', ''a'']
   \<and> Format [''a'', ''b'']
        (zeroSymbol\<lparr>PackagePath := ''pkg'', Name := ''F'',
           Metadata := emptyMetadata\<lparr>Custom := [''a'' \<mapsto> ''1'', ''b'' \<mapsto> ''2'']\<rparr>\<rparr>)
      \<noteq> Format [''b'', ''a'']
        (zeroSymbol\<lparr>PackagePath := ''pkg'', Name := ''F'',
           Metadata := emptyMetadata\<lparr>Custom := [''a'' \<mapsto> ''1'', ''b'' \<mapsto> ''2'']\<rparr>\<rparr>)"
  by (auto simp add: format_defs rangeOrder_def zeroSymbol_def emptyMetadata_def)

text \<open>
  Claim C6, amended. The output of \<open>Format\<close> is fixed up to the order of the custom
  entries. For an order of visit \<open>ks\<close> of the custom map, \<open>Format\<close> writes the package
  path, receiver, name, types and context, and then, unless there is no entry at all, the
  block: an opening brace, the entries joined by commas, a closing brace, where the entries
  are \<open>via\<close>, \<open>alias\<close> and \<open>pos\<close>, in that order, each present when its field is
  non-empty, and after them one entry \<open>key:value\<close> for each custom key, in the order
  \<open>ks\<close>. Two orders of visit hold the same keys, and with at most one custom key the two
  outputs are equal.
\<close>

theorem Format_order:
  "rangeOrder (Custom (Metadata s)) ks \<Longrightarrow> rangeOrder (Custom (Metadata s)) ks' \<Longrightarrow>
     (let m = Metadata s;
          front = PackagePath s @ ''.'' @ formatReceiver (Receiver s) @ formatName s @
                  formatTypes s @ formatContext s;
          known = (if Via m \<noteq> [] then [''via:'' @ Via m] else []) @
                  (if Alias m \<noteq> [] then [''alias:'' @ Alias m] else []) @
                  (if Position m \<noteq> [] then [''pos:'' @ Position m] else []);
          block = (\<lambda>order. if known = [] \<and> order = [] then []
                           else ''{'' @ Join (known @ map (\<lambda>k. k @ '':'' @ the (Custom m k)) order) '','' @ ''}'')
      in Format ks s = front @ block ks
         \<and> Format ks' s = front @ block ks'
         \<and> mset ks = mset ks'
         \<and> ((\<forall>k \<in> dom (Custom m). \<forall>k' \<in> dom (Custom m). k = k') \<longrightarrow> Format ks s = Format ks' s))"
proof -
  assume a: "rangeOrder (Custom (Metadata s)) ks" and b: "rangeOrder (Custom (Metadata s)) ks'"
  have blk: "formatMetadata od (Metadata s) =
     (if knownParts (Metadata s) = [] \<and> od = [] then []
      else ''{'' @ Join (knownParts (Metadata s) @ map (\<lambda>k. k @ '':'' @ the (Custom (Metadata s) k)) od) '','' @ ''}'')"
    if "rangeOrder (Custom (Metadata s)) od" for od
  proof -
    from that have "dom (Custom (Metadata s)) = set od" by (simp add: rangeOrder_def)
    then have "(Custom (Metadata s) = Map.empty) = (od = [])"
      by (metis dom_eq_empty_conv set_empty)
    moreover have "customPart (Metadata s) = (\<lambda>k. k @ '':'' @ the (Custom (Metadata s) k))"
      by (rule ext) (simp add: customPart_def)
    ultimately show ?thesis
      by (auto simp: formatMetadata_def hasMetadata_def metaParts_def knownParts_def)
  qed
  have m: "mset ks = mset ks'" using a b by (rule rangeOrder_mset)
  have sg: "Format ks s = Format ks' s"
    if "\<forall>k \<in> dom (Custom (Metadata s)). \<forall>k' \<in> dom (Custom (Metadata s)). k = k'"
    using rangeOrder_single[OF a b that] by simp
  show ?thesis
    using blk[OF a] blk[OF b] m sg by (simp add: Format_def Let_def knownParts_def)
qed

text \<open>
  The amended C6 at a Symbol with \<open>via\<close>, a position and the custom keys \<open>a\<close> and \<open>b\<close>,
  for its two orders of visit, and at a Symbol with the one custom key \<open>test\<close>.
\<close>

theorem Format_order_witness:
  "Format [''a'', ''b'']
     (zeroSymbol\<lparr>PackagePath := ''pkg'', Name := ''F'',
        Metadata := \<lparr>Via = ''W'', Alias = [], Position = ''f.go:1:2'',
                      Custom = [''a'' \<mapsto> ''1'', ''b'' \<mapsto> ''2'']\<rparr>\<rparr>)
     = ''pkg.F{via:W,pos:f.go:1:2,a:1,b:2}''
   \<and> Format [''b'', ''a'']
     (zeroSymbol\<lparr>PackagePath := ''pkg'', Name := ''F'',
        Metadata := \<lparr>Via = ''W'', Alias = [], Position = ''f.go:1:2'',
                      Custom = [''a'' \<mapsto> ''1'', ''b'' \<mapsto> ''2'']\<rparr>\<rparr>)
     = ''pkg.F{via:W,pos:f.go:1:2,b:2,a:1}''
   \<and> mset [''a'', ''b''] = mset [''b'', ''a'']
   \<and> Format [''test'']
     (zeroSymbol\<lparr>PackagePath := ''pkg'', Name := ''Func'',
        Metadata := emptyMetadata\<lparr>Custom := [''test'' \<mapsto> ''value'']\<rparr>\<rparr>)
     = ''pkg.Func{test:value}''"
proof -
  let ?s = "zeroSymbol\<lparr>PackagePath := ''pkg'', Name := ''F'',
        Metadata := \<lparr>Via = ''W'', Alias = [], Position = ''f.go:1:2'',
                      Custom = [''a'' \<mapsto> ''1'', ''b'' \<mapsto> ''2'']\<rparr>\<rparr>"
  have a: "rangeOrder (Custom (Metadata ?s)) [''a'', ''b'']"
    by (auto simp: rangeOrder_def zeroSymbol_def)
  have b: "rangeOrder (Custom (Metadata ?s)) [''b'', ''a'']"
    by (auto simp: rangeOrder_def zeroSymbol_def)
  have f: "PackagePath ?s @ ''.'' @ formatReceiver (Receiver ?s) @ formatName ?s @
           formatTypes ?s @ formatContext ?s = ''pkg.F''"
    by (simp add: format_defs zeroSymbol_def)
  let ?t = "zeroSymbol\<lparr>PackagePath := ''pkg'', Name := ''Func'',
        Metadata := emptyMetadata\<lparr>Custom := [''test'' \<mapsto> ''value'']\<rparr>\<rparr>"
  have c: "rangeOrder (Custom (Metadata ?t)) [''test'']"
    by (simp add: rangeOrder_def zeroSymbol_def emptyMetadata_def)
  have g: "PackagePath ?t @ ''.'' @ formatReceiver (Receiver ?t) @ formatName ?t @
           formatTypes ?t @ formatContext ?t = ''pkg.Func''"
    by (simp add: format_defs zeroSymbol_def)
  from Format_order[OF a b] f
  have 1: "Format [''a'', ''b''] ?s = ''pkg.F{via:W,pos:f.go:1:2,a:1,b:2}''
      \<and> Format [''b'', ''a''] ?s = ''pkg.F{via:W,pos:f.go:1:2,b:2,a:1}''
      \<and> mset [''a'', ''b''] = mset [''b'', ''a'']"
    by (simp add: Let_def zeroSymbol_def)
  from Format_order[OF c c] g
  have 2: "Format [''test''] ?t = ''pkg.Func{test:value}''"
    by (simp add: Let_def zeroSymbol_def emptyMetadata_def)
  from 1 2 show ?thesis by blast
qed

subsection \<open>The location of the adapters\<close>

lemma withLocation_Nil [simp]: "withLocation [] s = s"
  by (simp add: withLocation_def)

lemma zeroSymbol_plain [simp]: "Context zeroSymbol = []" "Metadata zeroSymbol = emptyMetadata"
  by (simp_all add: zeroSymbol_def)




















subsection \<open>The index of an anonymous function\<close>

text \<open>
  Claim C5 says that the parser rejects a negative index: the input \<open>pkg.F\<close>, marker,
  \<open>-3\<close> yields an error and no Symbol. The code reads the text after the marker with
  \<open>strconv.Atoi\<close>, which accepts a sign, and keeps whatever it returns: on this input it
  returns a Symbol with the index \<open>-3\<close> and no error.
\<close>

theorem Parse_negative_index:
  "Parse (''pkg.F'' @ litPart @ ''-3'') =
     (Some (zeroSymbol\<lparr>PackagePath := ''pkg'', Name := ''F'', IsAnonymous := True,
        AnonParent := ''pkg.F'', AnonIndex := - 3\<rparr>), None)"
  by (simp add: parse_defs str_defs)

subsection \<open>Round trips\<close>

subsection \<open>The metadata block, read back\<close>








lemma withoutD: "without cs x \<Longrightarrow> c \<in> set cs \<Longrightarrow> c \<notin> set x"
  by (simp add: without_def list_all_iff)







subsection \<open>The context, read back\<close>



subsection \<open>The package path, read back\<close>






subsection \<open>Type arguments, read back\<close>








subsection \<open>The receiver and the name, read back\<close>





subsection \<open>The kind of the symbol, read back\<close>








subsection \<open>Characters of the formatted pieces\<close>

lemma without_Nil [simp]: "without cs []"
  by (simp add: without_def list_all_iff)

lemma without_Cons [simp]: "without cs (c # x) = (c \<notin> set cs \<and> without cs x)"
  by (auto simp: without_def list_all_iff)

lemma without_append [simp]: "without cs (a @ b) = (without cs a \<and> without cs b)"
  by (auto simp: without_def list_all_iff)









subsection \<open>Format, read back\<close>













text \<open>
  Claim C2 as stated fails for each adapter. \<open>FromSSA\<close> returns the index \<open>0\<close> for
  \<open>pkg.F$0\<close>, \<open>ToSSA\<close> renders it as \<open>$1\<close>, and \<open>FromSSA\<close> returns the index \<open>1\<close> for
  that. \<open>FromStackTrace\<close> returns the type arguments \<open>string\<close> and \<open>net/http.Header\<close> for
  \<open>pkg.Map[string,net/http.Header]\<close>, \<open>ToStackTrace\<close> joins them with a comma and a space,
  and \<open>FromStackTrace\<close> takes what follows the space for a file path and fails.
\<close>

theorem adapter_roundtrip_counterexample:
  "FromSSA ''pkg.F$0'' =
     Some (zeroSymbol\<lparr>PackagePath := ''pkg'', Name := ''F'', IsAnonymous := True,
             AnonParent := ''pkg.F''\<rparr>)
   \<and> FromSSA (ToSSA (zeroSymbol\<lparr>PackagePath := ''pkg'', Name := ''F'', IsAnonymous := True,
               AnonParent := ''pkg.F''\<rparr>))
     \<noteq> Some (zeroSymbol\<lparr>PackagePath := ''pkg'', Name := ''F'', IsAnonymous := True,
             AnonParent := ''pkg.F''\<rparr>)
   \<and> FromStackTrace ''pkg.Map[string,net/http.Header]'' =
     Some (zeroSymbol\<lparr>PackagePath := ''pkg'', Name := ''Map'',
             TypeArgs := [''string'', ''net/http.Header'']\<rparr>)
   \<and> FromStackTrace (ToStackTrace (zeroSymbol\<lparr>PackagePath := ''pkg'', Name := ''Map'',
                      TypeArgs := [''string'', ''net/http.Header'']\<rparr>)) = None"
  by (simp add: ssa_defs stack_defs regex_defs str_defs zeroSymbol_def emptyMetadata_def Let_def)

end
